theory Spec2Isabelle
  imports Complex_Main "HOL-Library.Sublist"
begin

section \<open>Python values, exceptions and string primitives\<close>

text \<open>
  The backend is one Python module, \<^verbatim>\<open>backend/main.py\<close>. Values that travel through it
  dynamically typed (decoded JSON, the dictionaries the handlers build and return) are
  modelled by one datatype of Python values. Strings are \<^typ>\<open>string\<close>: sequences of
  code points below 256. A Python float is a rational, an infinity or a NaN; only its
  truth value is ever inspected.
\<close>

datatype pyfloat = FloatVal rat | FloatInf bool | FloatNaN

datatype py =
    PyNone
  | PyBool bool
  | PyInt int
  | PyFloat pyfloat
  | PyStr string
  | PyList "py list"
  | PyDict "(string \<times> py) list"

text \<open>
  Exceptions are values. \<open>HTTPException\<close> carries the status code and the detail; a detail
  is either a literal text or an f-string \<^verbatim>\<open>f"<prefix>{str(e)}"\<close>, kept as the prefix and
  the exception \<open>e\<close> whose text is interpolated.
\<close>

datatype exn =
    HTTPException nat detail
  | HTTPError string
  | KeyError
  | IndexError
  | TypeError
  | AttributeError
  | ValueError string
  | JSONDecodeError string
  | ValidationError
  | LibraryError string
and detail =
    Text string
  | Fmt string exn

fun status_code :: "exn \<Rightarrow> nat option" where
  "status_code (HTTPException c d) = Some c"
| "status_code _ = None"

subsection \<open>Truth values, \<^verbatim>\<open>dict.get\<close>, subscription and iteration\<close>

fun truthy :: "py \<Rightarrow> bool" where
  "truthy PyNone = False"
| "truthy (PyBool b) = b"
| "truthy (PyInt i) = (i \<noteq> 0)"
| "truthy (PyFloat (FloatVal r)) = (r \<noteq> 0)"
| "truthy (PyFloat _) = True"
| "truthy (PyStr s) = (s \<noteq> [])"
| "truthy (PyList xs) = (xs \<noteq> [])"
| "truthy (PyDict kvs) = (kvs \<noteq> [])"

text \<open>\<^verbatim>\<open>x.get(key, default)\<close>: only a dict has the method.\<close>

fun dict_get :: "py \<Rightarrow> string \<Rightarrow> py \<Rightarrow> exn + py" where
  "dict_get (PyDict kvs) k dflt = Inr (case map_of kvs k of Some v \<Rightarrow> v | None \<Rightarrow> dflt)"
| "dict_get _ k dflt = Inl AttributeError"

text \<open>
  Indexing a sequence of length \<open>n\<close>: positions \<open>0 \<dots> n - 1\<close> from the front, \<open>-1 \<dots> -n\<close>
  from the back, anything else is out of range.
\<close>

definition seq_index :: "'a list \<Rightarrow> int \<Rightarrow> exn + 'a" where
  "seq_index xs i =
     (if 0 \<le> i \<and> i < int (length xs) then Inr (xs ! nat i)
      else if i < 0 \<and> - int (length xs) \<le> i then Inr (xs ! nat (int (length xs) + i))
      else Inl IndexError)"

text \<open>\<^verbatim>\<open>x[i]\<close>. A \<open>bool\<close> is an \<open>int\<close> in Python, so it indexes a sequence.\<close>

fun getitem :: "py \<Rightarrow> py \<Rightarrow> exn + py" where
  "getitem (PyList xs) (PyInt i) = seq_index xs i"
| "getitem (PyList xs) (PyBool b) = seq_index xs (if b then 1 else 0)"
| "getitem (PyList xs) _ = Inl TypeError"
| "getitem (PyStr s) (PyInt i) = map_sum id (\<lambda>c. PyStr [c]) (seq_index s i)"
| "getitem (PyStr s) (PyBool b) = map_sum id (\<lambda>c. PyStr [c]) (seq_index s (if b then 1 else 0))"
| "getitem (PyStr s) _ = Inl TypeError"
| "getitem (PyDict kvs) (PyStr k) = (case map_of kvs k of Some v \<Rightarrow> Inr v | None \<Rightarrow> Inl KeyError)"
| "getitem (PyDict kvs) (PyList _) = Inl TypeError"
| "getitem (PyDict kvs) (PyDict _) = Inl TypeError"
| "getitem (PyDict kvs) _ = Inl KeyError"
| "getitem _ _ = Inl TypeError"

text \<open>The elements a \<^verbatim>\<open>for\<close> loop (or \<^verbatim>\<open>enumerate\<close>) visits.\<close>

fun py_iter :: "py \<Rightarrow> exn + py list" where
  "py_iter (PyList xs) = Inr xs"
| "py_iter (PyStr s) = Inr (map (\<lambda>c. PyStr [c]) s)"
| "py_iter (PyDict kvs) = Inr (map PyStr (remdups (map fst kvs)))"
| "py_iter _ = Inl TypeError"

subsection \<open>Strings\<close>

definition is_space :: "char \<Rightarrow> bool" where
  "is_space c = (let n = (of_char c :: nat) in
     (9 \<le> n \<and> n \<le> 13) \<or> (28 \<le> n \<and> n \<le> 32) \<or> n = 133 \<or> n = 160)"

definition strip :: "string \<Rightarrow> string" where
  "strip s = rev (dropWhile is_space (rev (dropWhile is_space s)))"

definition lower_char :: "char \<Rightarrow> char" where
  "lower_char c = (let n = (of_char c :: nat) in
     if (65 \<le> n \<and> n \<le> 90) \<or> (192 \<le> n \<and> n \<le> 222 \<and> n \<noteq> 215)
     then char_of (n + 32) else c)"

definition lower :: "string \<Rightarrow> string" where
  "lower s = map lower_char s"

definition endswith :: "string \<Rightarrow> string \<Rightarrow> bool" where
  "endswith s suf = suffix suf s"

text \<open>\<^verbatim>\<open>s.find(c)\<close> and \<^verbatim>\<open>s.rfind(c)\<close> for a one-character needle: \<open>-1\<close> when absent.\<close>

fun str_find :: "string \<Rightarrow> char \<Rightarrow> int" where
  "str_find [] c = - 1"
| "str_find (x # xs) c = (if x = c then 0 else (let r = str_find xs c in if r = - 1 then - 1 else r + 1))"

fun str_rfind :: "string \<Rightarrow> char \<Rightarrow> int" where
  "str_rfind [] c = - 1"
| "str_rfind (x # xs) c = (let r = str_rfind xs c in if r \<noteq> - 1 then r + 1 else if x = c then 0 else - 1)"

text \<open>\<^verbatim>\<open>s[i:j]\<close>, with Python's clamping of the two bounds.\<close>

definition clamp_index :: "nat \<Rightarrow> int \<Rightarrow> nat" where
  "clamp_index n i = (if i < 0 then nat (max 0 (int n + i)) else min n (nat i))"

definition str_slice :: "'a list \<Rightarrow> int \<Rightarrow> int \<Rightarrow> 'a list" where
  "str_slice s i j = (let a = clamp_index (length s) i; b = clamp_index (length s) j
                  in take (b - a) (drop a s))"

text \<open>\<^verbatim>\<open>str(n)\<close> for an integer: decimal digits, a minus sign when negative.\<close>

definition digit_char :: "nat \<Rightarrow> char" where
  "digit_char d = ''0123456789'' ! d"

fun digits :: "nat \<Rightarrow> string" where
  "digits n = (if n < 10 then [digit_char n] else digits (n div 10) @ [digit_char (n mod 10)])"

definition str_int :: "int \<Rightarrow> string" where
  "str_int i = (if i < 0 then CHR ''-'' # digits (nat (- i)) else digits (nat i))"

section \<open>Prompt builder\<close>

definition create_summary_prompt :: "string \<Rightarrow> string" where
  \<open>create_summary_prompt text =
     ''\<newline>    Please analyze the following text and provide a comprehensive summary along with key points.\<newline>    \<newline>    Text to summarize:\<newline>    ''
     @ text @
     ''\<newline>    \<newline>    Please respond in the following JSON format:\<newline>    {\<newline>        "summary": "A comprehensive summary of the text (2-3 paragraphs)",\<newline>        "key_points": ["Key point 1", "Key point 2", "Key point 3", "Key point 4", "Key point 5"]\<newline>    }\<newline>    \<newline>    Ensure the response is valid JSON.\<newline>    ''\<close>

definition create_quiz_prompt :: "string \<Rightarrow> string" where
  \<open>create_quiz_prompt text =
     ''\<newline>    Based on the following text, create 5 multiple-choice questions to test understanding.\<newline>    \<newline>    Text:\<newline>    ''
     @ text @
     ''\<newline>    \<newline>    Please respond in the following JSON format:\<newline>    {\<newline>        "questions": [\<newline>            {\<newline>                "question": "Question text here?",\<newline>                "options": ["Option A", "Option B", "Option C", "Option D"],\<newline>                "correct_answer": 0,\<newline>                "explanation": "Brief explanation of why this is correct"\<newline>            }\<newline>        ]\<newline>    }\<newline>    \<newline>    Make sure:\<newline>    - Each question has exactly 4 options\<newline>    - correct_answer is the index (0-3) of the correct option\<newline>    - Questions test different aspects of the content\<newline>    - Ensure the response is valid JSON\<newline>    ''\<close>

definition create_flashcards_prompt :: "string \<Rightarrow> string" where
  \<open>create_flashcards_prompt text =
     ''\<newline>    Based on the following text, create 8 flashcards for studying key concepts.\<newline>    \<newline>    Text:\<newline>    ''
     @ text @
     ''\<newline>    \<newline>    Please respond in the following JSON format:\<newline>    {\<newline>        "flashcards": [\<newline>            {\<newline>                "front": "Question or concept",\<newline>                "back": "Answer or explanation"\<newline>            }\<newline>        ]\<newline>    }\<newline>    \<newline>    Make sure:\<newline>    - Each flashcard tests an important concept\<newline>    - Front side is concise (question/term)\<newline>    - Back side provides clear explanation\<newline>    - Cover different topics from the text\<newline>    - Ensure the response is valid JSON\<newline>    ''\<close>

section \<open>Environment and process state\<close>

text \<open>
  What the module takes from outside is a parameter of the model:
  the process environment read by \<^verbatim>\<open>os.getenv\<close>; the readings of \<^verbatim>\<open>datetime.now()\<close>, the
  \<open>n\<close>-th call returning \<open>clock n\<close>; the upstream endpoint, \<open>upstream n key prompt max_tokens\<close>
  being the outcome of the \<open>n\<close>-th request; \<^verbatim>\<open>json.loads\<close>, which returns a value or raises
  \<^verbatim>\<open>JSONDecodeError\<close>; the PDF library, which returns the text of each page or raises; and
  the two field coercions of the validation library.
\<close>

record datetime =
  timestamp_us :: int
  isoformat :: string

datatype post_outcome =
    PostFailed string
  | BodyInvalid string
  | Body py

record environment =
  os_environ :: "string \<rightharpoonup> string"
  clock :: "nat \<Rightarrow> datetime"
  upstream :: "nat \<Rightarrow> string \<Rightarrow> string \<Rightarrow> nat \<Rightarrow> post_outcome"
  json_loads :: "string \<Rightarrow> string + py"
  pdf_pages :: "nat list \<Rightarrow> exn + string list"
  coerce_str :: "py \<Rightarrow> string option"
  coerce_int :: "py \<Rightarrow> int option"

record UploadFile =
  filename :: string
  file_bytes :: "nat list"

text \<open>
  A stored document: the dictionary \<^verbatim>\<open>upload_document\<close> writes, with the three keys that
  \<^verbatim>\<open>process_document\<close> adds later absent (\<open>None\<close>) until then.
\<close>

record document =
  doc_id :: string
  title :: string
  created_at :: string
  user_id :: string
  file_path :: string
  pdf_text :: string
  processed :: bool
  summary :: "py option"
  flashcards :: "py option"
  quiz :: "py option"

text \<open>
  The mutable state: the module-level store, and how many clock readings, upstream
  requests and reads of an uploaded file have happened so far.
\<close>

record world =
  documents_storage :: "string \<rightharpoonup> document"
  clock_reads :: nat
  requests_sent :: nat
  files_read :: nat

type_synonym 'a action = "world \<Rightarrow> (exn + 'a) \<times> world"

definition ret :: "'a \<Rightarrow> 'a action" where
  "ret x = (\<lambda>w. (Inr x, w))"

definition raise :: "exn \<Rightarrow> 'a action" where
  "raise e = (\<lambda>w. (Inl e, w))"

definition lift :: "exn + 'a \<Rightarrow> 'a action" where
  "lift r = (\<lambda>w. (r, w))"

definition bnd :: "'a action \<Rightarrow> ('a \<Rightarrow> 'b action) \<Rightarrow> 'b action" where
  "bnd m f = (\<lambda>w. case m w of (Inl e, w') \<Rightarrow> (Inl e, w') | (Inr x, w') \<Rightarrow> f x w')"

definition try_except :: "'a action \<Rightarrow> (exn \<Rightarrow> 'a action) \<Rightarrow> 'a action" where
  "try_except m h = (\<lambda>w. case m w of (Inl e, w') \<Rightarrow> h e w' | (Inr x, w') \<Rightarrow> (Inr x, w'))"

definition now :: "environment \<Rightarrow> datetime action" where
  "now env = (\<lambda>w. (Inr (clock env (clock_reads w)), w\<lparr>clock_reads := clock_reads w + 1\<rparr>))"

text \<open>\<^verbatim>\<open>int(t)\<close> of a POSIX timestamp held in microseconds: truncation toward zero.\<close>

definition int_timestamp :: "datetime \<Rightarrow> int" where
  "int_timestamp d = (let us = timestamp_us d in
     if 0 \<le> us then us div 1000000 else - ((- us) div 1000000))"

section \<open>Configuration and helper functions\<close>

definition getenv :: "(string \<rightharpoonup> string) \<Rightarrow> string \<Rightarrow> string \<Rightarrow> string" where
  "getenv environ name dflt = (case environ name of Some v \<Rightarrow> v | None \<Rightarrow> dflt)"

definition OPENROUTER_API_KEY :: "environment \<Rightarrow> string" where
  "OPENROUTER_API_KEY env = getenv (os_environ env) ''OPENROUTER_API_KEY''
     ''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''"

definition extract_text_from_pdf :: "environment \<Rightarrow> UploadFile \<Rightarrow> string action" where
  "extract_text_from_pdf env pdf_file =
     try_except
       (bnd (\<lambda>w. (Inr (file_bytes pdf_file), w\<lparr>files_read := files_read w + 1\<rparr>)) (\<lambda>pdf_content.
        bnd (lift (pdf_pages env pdf_content)) (\<lambda>pages.
        ret (strip (concat (map (\<lambda>page. page @ ''\<newline>'') pages))))))
       (\<lambda>e. raise (HTTPException 400 (Fmt ''Error extracting PDF text: '' e)))"

text \<open>\<^verbatim>\<open>result["choices"][0]["message"]["content"]\<close>\<close>

definition message_content :: "py \<Rightarrow> exn + py" where
  "message_content result =
     (case getitem result (PyStr ''choices'') of Inl e \<Rightarrow> Inl e | Inr choices \<Rightarrow>
      case getitem choices (PyInt 0) of Inl e \<Rightarrow> Inl e | Inr choice \<Rightarrow>
      case getitem choice (PyStr ''message'') of Inl e \<Rightarrow> Inl e | Inr message \<Rightarrow>
      getitem message (PyStr ''content''))"

definition call_openrouter_api :: "environment \<Rightarrow> string \<Rightarrow> nat \<Rightarrow> py action" where
  "call_openrouter_api env prompt max_tokens =
     (if OPENROUTER_API_KEY env = []
      then raise (HTTPException 500 (Text ''OpenRouter API key not configured''))
      else (\<lambda>w.
        let w' = w\<lparr>requests_sent := requests_sent w + 1\<rparr> in
        case upstream env (requests_sent w) (OPENROUTER_API_KEY env) prompt max_tokens of
          PostFailed msg \<Rightarrow>
            (Inl (HTTPException 500 (Fmt ''OpenRouter API error: '' (HTTPError msg))), w')
        | BodyInvalid msg \<Rightarrow> (Inl (JSONDecodeError msg), w')
        | Body result \<Rightarrow>
            (case message_content result of
               Inl KeyError \<Rightarrow>
                 (Inl (HTTPException 500 (Fmt ''Unexpected API response format: '' KeyError)), w')
             | Inl e \<Rightarrow> (Inl e, w')
             | Inr content \<Rightarrow> (Inr content, w'))))"

text \<open>
  \<^verbatim>\<open>parse_json_response\<close>. The handler catches \<^verbatim>\<open>JSONDecodeError\<close> and \<^verbatim>\<open>ValueError\<close> only; a
  response that is not a string has no \<^verbatim>\<open>find\<close> method, and that error passes through.
\<close>

definition parse_json_text :: "environment \<Rightarrow> string \<Rightarrow> exn + py" where
  "parse_json_text env response =
     (let start_idx = str_find response CHR ''{'';
          end_idx = str_rfind response CHR ''}'' + 1
      in if start_idx = - 1 \<or> end_idx = 0
         then Inl (ValueError ''No JSON found in response'')
         else (case json_loads env (str_slice response start_idx end_idx) of
                 Inl msg \<Rightarrow> Inl (JSONDecodeError msg)
               | Inr v \<Rightarrow> Inr v))"

fun parse_json_response :: "environment \<Rightarrow> py \<Rightarrow> exn + py" where
  "parse_json_response env (PyStr response) =
     (case parse_json_text env response of
        Inl (JSONDecodeError msg) \<Rightarrow>
          Inl (HTTPException 500 (Fmt ''Error parsing API response: '' (JSONDecodeError msg)))
      | Inl (ValueError msg) \<Rightarrow>
          Inl (HTTPException 500 (Fmt ''Error parsing API response: '' (ValueError msg)))
      | Inl e \<Rightarrow> Inl e
      | Inr v \<Rightarrow> Inr v)"
| "parse_json_response env _ = Inl AttributeError"

section \<open>Response models\<close>

text \<open>
  \<^verbatim>\<open>Model(**data)\<close>: unpacking needs a dict (\<^verbatim>\<open>TypeError\<close> otherwise); a missing or
  ill-typed field is a validation error; extra keys are ignored. A model instance is
  kept as the dict of its fields, in declaration order.
\<close>

definition str_field :: "environment \<Rightarrow> (string \<times> py) list \<Rightarrow> string \<Rightarrow> py option" where
  "str_field env kvs k =
     (case map_of kvs k of None \<Rightarrow> None | Some v \<Rightarrow> map_option PyStr (coerce_str env v))"

definition int_field :: "environment \<Rightarrow> (string \<times> py) list \<Rightarrow> string \<Rightarrow> py option" where
  "int_field env kvs k =
     (case map_of kvs k of None \<Rightarrow> None | Some v \<Rightarrow> map_option PyInt (coerce_int env v))"

definition list_field :: "(py \<Rightarrow> py option) \<Rightarrow> (string \<times> py) list \<Rightarrow> string \<Rightarrow> py option" where
  "list_field item kvs k =
     (case map_of kvs k of
        Some (PyList xs) \<Rightarrow> map_option PyList (those (map item xs))
      | _ \<Rightarrow> None)"

definition model_init :: "((string \<times> py) list \<Rightarrow> py option) \<Rightarrow> py \<Rightarrow> exn + py" where
  "model_init validate data =
     (case data of
        PyDict kvs \<Rightarrow> (case validate kvs of Some m \<Rightarrow> Inr m | None \<Rightarrow> Inl ValidationError)
      | _ \<Rightarrow> Inl TypeError)"

definition SummaryResponse_fields :: "environment \<Rightarrow> (string \<times> py) list \<Rightarrow> py option" where
  "SummaryResponse_fields env kvs =
     (case (str_field env kvs ''summary'',
            list_field (\<lambda>v. map_option PyStr (coerce_str env v)) kvs ''key_points'') of
        (Some s, Some k) \<Rightarrow> Some (PyDict [(''summary'', s), (''key_points'', k)])
      | _ \<Rightarrow> None)"

definition QuizQuestion_fields :: "environment \<Rightarrow> (string \<times> py) list \<Rightarrow> py option" where
  "QuizQuestion_fields env kvs =
     (case (str_field env kvs ''question'',
            list_field (\<lambda>v. map_option PyStr (coerce_str env v)) kvs ''options'',
            int_field env kvs ''correct_answer'',
            str_field env kvs ''explanation'') of
        (Some q, Some os, Some c, Some e) \<Rightarrow>
          Some (PyDict [(''question'', q), (''options'', os), (''correct_answer'', c),
                        (''explanation'', e)])
      | _ \<Rightarrow> None)"

definition nested_model :: "((string \<times> py) list \<Rightarrow> py option) \<Rightarrow> py \<Rightarrow> py option" where
  "nested_model validate v = (case v of PyDict kvs \<Rightarrow> validate kvs | _ \<Rightarrow> None)"

definition QuizResponse_fields :: "environment \<Rightarrow> (string \<times> py) list \<Rightarrow> py option" where
  "QuizResponse_fields env kvs =
     (case list_field (nested_model (QuizQuestion_fields env)) kvs ''questions'' of
        Some qs \<Rightarrow> Some (PyDict [(''questions'', qs)])
      | None \<Rightarrow> None)"

definition Flashcard_fields :: "environment \<Rightarrow> (string \<times> py) list \<Rightarrow> py option" where
  "Flashcard_fields env kvs =
     (case (str_field env kvs ''front'', str_field env kvs ''back'') of
        (Some f, Some b) \<Rightarrow> Some (PyDict [(''front'', f), (''back'', b)])
      | _ \<Rightarrow> None)"

definition FlashcardsResponse_fields :: "environment \<Rightarrow> (string \<times> py) list \<Rightarrow> py option" where
  "FlashcardsResponse_fields env kvs =
     (case list_field (nested_model (Flashcard_fields env)) kvs ''flashcards'' of
        Some fs \<Rightarrow> Some (PyDict [(''flashcards'', fs)])
      | None \<Rightarrow> None)"

definition SummaryResponse :: "environment \<Rightarrow> py \<Rightarrow> exn + py" where
  "SummaryResponse env data = model_init (SummaryResponse_fields env) data"

definition QuizResponse :: "environment \<Rightarrow> py \<Rightarrow> exn + py" where
  "QuizResponse env data = model_init (QuizResponse_fields env) data"

definition FlashcardsResponse :: "environment \<Rightarrow> py \<Rightarrow> exn + py" where
  "FlashcardsResponse env data = model_init (FlashcardsResponse_fields env) data"

section \<open>Request handlers\<close>

subsection \<open>One-shot endpoints\<close>

definition upload_and_process_pdf :: "environment \<Rightarrow> UploadFile \<Rightarrow> py action" where
  "upload_and_process_pdf env pdf =
     (if \<not> endswith (lower (filename pdf)) ''.pdf''
      then raise (HTTPException 400 (Text ''Only PDF files are allowed''))
      else
        bnd (extract_text_from_pdf env pdf) (\<lambda>pdf_text.
        if strip pdf_text = []
        then raise (HTTPException 400 (Text ''No text found in PDF''))
        else
          try_except
            (bnd (call_openrouter_api env (create_summary_prompt pdf_text) 2000) (\<lambda>summary_response.
             bnd (lift (parse_json_response env summary_response)) (\<lambda>summary_data.
             bnd (call_openrouter_api env (create_quiz_prompt pdf_text) 2000) (\<lambda>quiz_response.
             bnd (lift (parse_json_response env quiz_response)) (\<lambda>quiz_data.
             bnd (call_openrouter_api env (create_flashcards_prompt pdf_text) 2000) (\<lambda>flashcards_response.
             bnd (lift (parse_json_response env flashcards_response)) (\<lambda>flashcards_data.
             bnd (lift (SummaryResponse env summary_data)) (\<lambda>s.
             bnd (lift (QuizResponse env quiz_data)) (\<lambda>q.
             bnd (lift (FlashcardsResponse env flashcards_data)) (\<lambda>f.
             ret (PyDict [(''summary'', s), (''quiz'', q), (''flashcards'', f)])))))))))))
            (\<lambda>e. raise (HTTPException 500 (Fmt ''Error processing PDF: '' e)))))"

definition generate_summary :: "environment \<Rightarrow> string \<Rightarrow> py action" where
  "generate_summary env text =
     (if strip text = []
      then raise (HTTPException 400 (Text ''Text cannot be empty''))
      else
        try_except
          (bnd (call_openrouter_api env (create_summary_prompt text) 2000) (\<lambda>response.
           bnd (lift (parse_json_response env response)) (\<lambda>data.
           lift (SummaryResponse env data))))
          (\<lambda>e. raise (HTTPException 500 (Fmt ''Error generating summary: '' e))))"

definition generate_quiz :: "environment \<Rightarrow> string \<Rightarrow> py action" where
  "generate_quiz env text =
     (if strip text = []
      then raise (HTTPException 400 (Text ''Text cannot be empty''))
      else
        try_except
          (bnd (call_openrouter_api env (create_quiz_prompt text) 2000) (\<lambda>response.
           bnd (lift (parse_json_response env response)) (\<lambda>data.
           lift (QuizResponse env data))))
          (\<lambda>e. raise (HTTPException 500 (Fmt ''Error generating quiz: '' e))))"

definition generate_flashcards :: "environment \<Rightarrow> string \<Rightarrow> py action" where
  "generate_flashcards env text =
     (if strip text = []
      then raise (HTTPException 400 (Text ''Text cannot be empty''))
      else
        try_except
          (bnd (call_openrouter_api env (create_flashcards_prompt text) 2000) (\<lambda>response.
           bnd (lift (parse_json_response env response)) (\<lambda>data.
           lift (FlashcardsResponse env data))))
          (\<lambda>e. raise (HTTPException 500 (Fmt ''Error generating flashcards: '' e))))"

subsection \<open>Document upload\<close>

definition upload_document :: "environment \<Rightarrow> UploadFile \<Rightarrow> string \<Rightarrow> py action" where
  "upload_document env pdf ttl =
     (if \<not> endswith (lower (filename pdf)) ''.pdf''
      then raise (HTTPException 400 (Text ''File must be a PDF''))
      else
        try_except
          (bnd (extract_text_from_pdf env pdf) (\<lambda>pdf_text.
           if strip pdf_text = []
           then raise (HTTPException 400 (Text ''No text found in PDF''))
           else
             bnd (now env) (\<lambda>t0.
             let doc_id = str_int (int_timestamp t0) in
             bnd (now env) (\<lambda>t1.
             bnd (\<lambda>w. (Inr (), w\<lparr>documents_storage := (documents_storage w)(doc_id \<mapsto>
                    \<lparr>doc_id = doc_id, title = ttl, created_at = isoformat t1,
                     user_id = ''default-user-id'',
                     file_path = ''/uploads/'' @ doc_id @ ''.pdf'',
                     pdf_text = pdf_text, processed = False,
                     summary = None, flashcards = None, quiz = None\<rparr>)\<rparr>)) (\<lambda>_.
             bnd (now env) (\<lambda>t2.
             ret (PyDict [(''title'', PyStr ttl), (''id'', PyStr doc_id),
                          (''created_at'', PyStr (isoformat t2))])))))))
          (\<lambda>e. raise (HTTPException 500 (Fmt ''Error uploading document: '' e))))"

subsection \<open>Processing a stored document\<close>

text \<open>The flashcard loop of \<^verbatim>\<open>process_document\<close>; \<open>i\<close> is the \<^verbatim>\<open>enumerate\<close> index.\<close>

fun flashcards_loop :: "environment \<Rightarrow> string \<Rightarrow> nat \<Rightarrow> py list \<Rightarrow> py list action" where
  "flashcards_loop env document_id i [] = ret []"
| "flashcards_loop env document_id i (fc # cards) =
     bnd (lift (dict_get fc ''front'' (PyStr ''''))) (\<lambda>front.
     bnd (lift (dict_get fc ''back'' (PyStr ''''))) (\<lambda>back.
     bnd (now env) (\<lambda>t.
     bnd (flashcards_loop env document_id (i + 1) cards) (\<lambda>rest.
     ret (PyDict [(''id'', PyStr (''fc-'' @ document_id @ ''-'' @ str_int (int i + 1))),
                  (''document_id'', PyStr document_id),
                  (''question'', front),
                  (''answer'', back),
                  (''created_at'', PyStr (isoformat t))] # rest)))))"

text \<open>
  \<^verbatim>\<open>q.get("options", [""])[q.get("correct_answer", 0)] if q.get("options") else ""\<close>:
  the condition is evaluated first, then the container, the index and the subscription.
\<close>

definition correct_answer :: "py \<Rightarrow> exn + py" where
  "correct_answer q =
     (case dict_get q ''options'' PyNone of Inl e \<Rightarrow> Inl e | Inr cond \<Rightarrow>
      if truthy cond
      then (case dict_get q ''options'' (PyList [PyStr '''']) of Inl e \<Rightarrow> Inl e | Inr opts \<Rightarrow>
            case dict_get q ''correct_answer'' (PyInt 0) of Inl e \<Rightarrow> Inl e | Inr idx \<Rightarrow>
            getitem opts idx)
      else Inr (PyStr ''''))"

fun quiz_loop :: "environment \<Rightarrow> string \<Rightarrow> nat \<Rightarrow> py list \<Rightarrow> py list action" where
  "quiz_loop env document_id i [] = ret []"
| "quiz_loop env document_id i (q # qs) =
     bnd (lift (dict_get q ''question'' (PyStr ''''))) (\<lambda>question.
     bnd (lift (dict_get q ''options'' (PyList []))) (\<lambda>options.
     bnd (lift (correct_answer q)) (\<lambda>correct.
     bnd (now env) (\<lambda>t.
     bnd (quiz_loop env document_id (i + 1) qs) (\<lambda>rest.
     ret (PyDict [(''id'', PyStr (''q-'' @ document_id @ ''-'' @ str_int (int i + 1))),
                  (''quiz_id'', PyStr (''quiz-'' @ document_id)),
                  (''question'', question),
                  (''options'', options),
                  (''correct_answer'', correct),
                  (''created_at'', PyStr (isoformat t))] # rest))))))"

text \<open>
  Lines 389 to 446 of \<^verbatim>\<open>process_document\<close>: the text check, the three generation steps and
  the reshaping of their results into the stored summary, flashcards and quiz.
\<close>

definition derive_outputs :: "environment \<Rightarrow> string \<Rightarrow> document \<Rightarrow> (py \<times> py \<times> py) action" where
  "derive_outputs env document_id document_data =
     (if pdf_text document_data = []
      then raise (HTTPException 400 (Text ''No text content found for this document''))
      else
        bnd (call_openrouter_api env (create_summary_prompt (pdf_text document_data)) 2000) (\<lambda>summary_response.
        bnd (lift (parse_json_response env summary_response)) (\<lambda>summary_data.
        bnd (call_openrouter_api env (create_quiz_prompt (pdf_text document_data)) 2000) (\<lambda>quiz_response.
        bnd (lift (parse_json_response env quiz_response)) (\<lambda>quiz_data.
        bnd (call_openrouter_api env (create_flashcards_prompt (pdf_text document_data)) 2000) (\<lambda>flashcards_response.
        bnd (lift (parse_json_response env flashcards_response)) (\<lambda>flashcards_data.
        bnd (lift (dict_get summary_data ''summary'' (PyStr ''Summary not available''))) (\<lambda>content.
        bnd (now env) (\<lambda>t0.
        bnd (lift (dict_get flashcards_data ''flashcards'' (PyList []))) (\<lambda>cards.
        bnd (lift (py_iter cards)) (\<lambda>cards.
        bnd (flashcards_loop env document_id 0 cards) (\<lambda>flashcards.
        bnd (lift (dict_get quiz_data ''questions'' (PyList []))) (\<lambda>questions.
        bnd (lift (py_iter questions)) (\<lambda>questions.
        bnd (quiz_loop env document_id 0 questions) (\<lambda>quiz_questions.
        bnd (now env) (\<lambda>t1.
        ret (PyDict [(''id'', PyStr (''sum-'' @ document_id)),
                     (''document_id'', PyStr document_id),
                     (''content'', content),
                     (''created_at'', PyStr (isoformat t0))],
             PyList flashcards,
             PyDict [(''id'', PyStr (''quiz-'' @ document_id)),
                     (''document_id'', PyStr document_id),
                     (''title'', PyStr (''Quiz: '' @ title document_data)),
                     (''created_at'', PyStr (isoformat t1)),
                     (''questions'', PyList quiz_questions)])))))))))))))))))"

text \<open>\<^verbatim>\<open>documents_storage[document_id].update({...})\<close>\<close>

definition store_outputs :: "string \<Rightarrow> py \<times> py \<times> py \<Rightarrow> unit action" where
  "store_outputs document_id outs =
     (\<lambda>w. case documents_storage w document_id of
            None \<Rightarrow> (Inl KeyError, w)
          | Some d \<Rightarrow>
              (Inr (), w\<lparr>documents_storage := (documents_storage w)(document_id \<mapsto>
                 d\<lparr>summary := Some (fst outs),
                   flashcards := Some (fst (snd outs)),
                   quiz := Some (snd (snd outs)),
                   processed := True\<rparr>)\<rparr>))"

definition process_document :: "environment \<Rightarrow> string \<Rightarrow> py action" where
  "process_document env document_id =
     try_except
       (bnd (\<lambda>w. (Inr (documents_storage w document_id), w)) (\<lambda>found.
        case found of
          None \<Rightarrow> raise (HTTPException 404 (Text ''Document not found''))
        | Some document_data \<Rightarrow>
            bnd (derive_outputs env document_id document_data) (\<lambda>outs.
            bnd (store_outputs document_id outs) (\<lambda>_.
            ret (PyDict [(''status'', PyStr ''success''),
                         (''message'', PyStr ''Document processed successfully with AI-generated content''),
                         (''document_id'', PyStr document_id)])))))
       (\<lambda>e. raise (HTTPException 500 (Fmt ''Error processing document: '' e)))"

subsection \<open>Fetching a document\<close>

definition opt_py :: "py option \<Rightarrow> py \<Rightarrow> py" where
  "opt_py v dflt = (case v of Some x \<Rightarrow> x | None \<Rightarrow> dflt)"

definition mock_flashcard :: "string \<Rightarrow> string \<Rightarrow> string \<Rightarrow> string \<Rightarrow> datetime \<Rightarrow> py" where
  "mock_flashcard document_id n question answer t =
     PyDict [(''id'', PyStr (''fc-'' @ document_id @ ''-'' @ n)),
             (''document_id'', PyStr document_id),
             (''question'', PyStr question),
             (''answer'', PyStr answer),
             (''created_at'', PyStr (isoformat t))]"

definition mock_question :: "string \<Rightarrow> string \<Rightarrow> string \<Rightarrow> string list \<Rightarrow> string \<Rightarrow> datetime \<Rightarrow> py" where
  "mock_question document_id n question opts answer t =
     PyDict [(''id'', PyStr (''q-'' @ document_id @ ''-'' @ n)),
             (''quiz_id'', PyStr (''quiz-'' @ document_id)),
             (''question'', PyStr question),
             (''options'', PyList (map PyStr opts)),
             (''correct_answer'', PyStr answer),
             (''created_at'', PyStr (isoformat t))]"

definition mock_document :: "environment \<Rightarrow> string \<Rightarrow> py action" where
  "mock_document env document_id =
     bnd (now env) (\<lambda>t0.
     bnd (now env) (\<lambda>t1.
     bnd (now env) (\<lambda>t2.
     bnd (now env) (\<lambda>t3.
     bnd (now env) (\<lambda>t4.
     bnd (now env) (\<lambda>t5.
     bnd (now env) (\<lambda>t6.
     bnd (now env) (\<lambda>t7.
     ret (PyDict
       [(''id'', PyStr document_id),
        (''title'', PyStr ''Sample Document: AI Fundamentals''),
        (''created_at'', PyStr (isoformat t0)),
        (''user_id'', PyStr ''default-user-id''),
        (''file_path'', PyStr (''/uploads/'' @ document_id @ ''.pdf'')),
        (''summary'', PyDict
           [(''id'', PyStr (''sum-'' @ document_id)),
            (''document_id'', PyStr document_id),
            (''content'', PyStr ''This document provides a comprehensive introduction to Artificial Intelligence, covering key concepts such as machine learning, neural networks, natural language processing, and computer vision. It explores the historical development of AI, current applications across various industries, and future prospects for AI technology.''),
            (''created_at'', PyStr (isoformat t1))]),
        (''flashcards'', PyList
           [mock_flashcard document_id ''1'' ''What is Artificial Intelligence?''
              ''Artificial Intelligence is the simulation of human intelligence processes by machines, especially computer systems.'' t2,
            mock_flashcard document_id ''2'' ''What are the main types of machine learning?''
              ''Supervised learning, unsupervised learning, and reinforcement learning.'' t3,
            mock_flashcard document_id ''3'' ''What is a neural network?''
              ''A computing system inspired by biological neural networks that processes information using interconnected nodes.'' t4]),
        (''quiz'', PyDict
           [(''id'', PyStr (''quiz-'' @ document_id)),
            (''document_id'', PyStr document_id),
            (''title'', PyStr ''AI Fundamentals Quiz''),
            (''created_at'', PyStr (isoformat t5)),
            (''questions'', PyList
               [mock_question document_id ''1''
                  ''Which of the following is a subset of AI focused on learning from data?''
                  [''Machine Learning'', ''Computer Graphics'', ''Database Management'', ''Web Development'']
                  ''Machine Learning'' t6,
                mock_question document_id ''2''
                  ''What type of AI can perform any intellectual task that a human can do?''
                  [''Narrow AI'', ''General AI'', ''Super AI'', ''Weak AI'']
                  ''General AI'' t7])])])))))))))"

definition get_document :: "environment \<Rightarrow> string \<Rightarrow> py action" where
  "get_document env document_id =
     try_except
       (bnd (\<lambda>w. (Inr (documents_storage w document_id), w)) (\<lambda>found.
        case found of
          Some doc_data \<Rightarrow>
            if processed doc_data
            then ret (PyDict [(''id'', PyStr (doc_id doc_data)),
                              (''title'', PyStr (title doc_data)),
                              (''created_at'', PyStr (created_at doc_data)),
                              (''user_id'', PyStr (user_id doc_data)),
                              (''file_path'', PyStr (file_path doc_data)),
                              (''summary'', opt_py (summary doc_data) PyNone),
                              (''flashcards'', opt_py (flashcards doc_data) (PyList [])),
                              (''quiz'', opt_py (quiz doc_data) PyNone)])
            else ret (PyDict [(''id'', PyStr (doc_id doc_data)),
                              (''title'', PyStr (title doc_data)),
                              (''created_at'', PyStr (created_at doc_data)),
                              (''user_id'', PyStr (user_id doc_data)),
                              (''file_path'', PyStr (file_path doc_data)),
                              (''summary'', PyNone),
                              (''flashcards'', PyList []),
                              (''quiz'', PyNone)])
        | None \<Rightarrow> mock_document env document_id))
       (\<lambda>e. raise (HTTPException 404 (Fmt ''Document not found: '' e)))"

section \<open>Notions used in the statements\<close>

text \<open>
  A file name ``ends in \<^verbatim>\<open>.pdf\<close>, case-insensitively'': its last four characters are a
  dot and the letters p, d, f, each in either case. This is the specification's wording,
  stated without the code's \<^verbatim>\<open>lower\<close> and \<^verbatim>\<open>endswith\<close>.
\<close>

definition has_pdf_extension :: "string \<Rightarrow> bool" where
  "has_pdf_extension name =
     (case rev name of
        f # d # p # dot # _ \<Rightarrow>
          dot = CHR ''.'' \<and> (p = CHR ''p'' \<or> p = CHR ''P'') \<and> (d = CHR ''d'' \<or> d = CHR ''D'')
          \<and> (f = CHR ''f'' \<or> f = CHR ''F'')
      | _ \<Rightarrow> False)"

text \<open>
  An action is blind to the store when replacing the store beforehand changes nothing but
  the store of the resulting state: it neither reads nor writes \<^verbatim>\<open>documents_storage\<close>.
\<close>

definition store_blind :: "'a action \<Rightarrow> bool" where
  "store_blind m =
     (\<forall>w s. m (w\<lparr>documents_storage := s\<rparr>) = (fst (m w), (snd (m w))\<lparr>documents_storage := s\<rparr>))"

text \<open>
  The questions the model returns to the quiz request of a \<^verbatim>\<open>process_document\<close> run that
  starts in state \<open>w\<close> on the stored document \<open>d\<close>: the quiz request is the second request
  of the run; its answer's message content is parsed, and the value under \<^verbatim>\<open>questions\<close> is
  iterated as the handler's loop does.
\<close>

definition model_questions :: "environment \<Rightarrow> document \<Rightarrow> world \<Rightarrow> py list option" where
  "model_questions env d w =
     (case upstream env (requests_sent w + 1) (OPENROUTER_API_KEY env)
             (create_quiz_prompt (pdf_text d)) 2000 of
        Body result \<Rightarrow>
          (case message_content result of
             Inr content \<Rightarrow>
               (case parse_json_response env content of
                  Inr quiz_data \<Rightarrow>
                    (case dict_get quiz_data ''questions'' (PyList []) of
                       Inr questions \<Rightarrow>
                         (case py_iter questions of Inr items \<Rightarrow> Some items | Inl e \<Rightarrow> None)
                     | Inl e \<Rightarrow> None)
                | Inl e \<Rightarrow> None)
           | Inl e \<Rightarrow> None)
      | _ \<Rightarrow> None)"


section \<open>An example environment\<close>

text \<open>
  A concrete environment for running the handlers: no \<^verbatim>\<open>OPENROUTER_API_KEY\<close> variable; a
  clock that advances by one millisecond per reading, all readings used below falling
  into the second 1700000000; an upstream that answers six requests (two rounds of
  summary, quiz, flashcards) and then fails; a decoder that knows the texts of these
  answers; a PDF library that knows two files; and coercions that accept exactly strings
  and integers.
\<close>

definition pad6 :: "string \<Rightarrow> string" where
  "pad6 s = drop (length s) ''000000'' @ s"

definition example_clock :: "nat \<Rightarrow> datetime" where
  "example_clock n =
     \<lparr>timestamp_us = 1700000000000001 + 1000 * int n,
      isoformat = ''2023-11-14T22:13:20.'' @ pad6 (digits (1 + 1000 * n))\<rparr>"

definition chat_body :: "string \<Rightarrow> py" where
  "chat_body content =
     PyDict [(''choices'', PyList [PyDict [(''message'',
        PyDict [(''role'', PyStr ''assistant''), (''content'', PyStr content)])]])]"

definition example_contents :: "string list" where
  \<open>example_contents =
     [''{"summary": "S", "key_points": ["K"]}'',
      ''{"questions": [{"question": "Q", "options": ["A", "B"], "correct_answer": 1, "explanation": "E"}]}'',
      ''Here you go: {"flashcards": [{"front": "F", "back": "G"}]} Enjoy!'',
      ''{"summary": "S2", "key_points": []}'',
      ''{"questions": []}'',
      ''{"flashcards": []}'']\<close>

definition example_upstream :: "nat \<Rightarrow> string \<Rightarrow> string \<Rightarrow> nat \<Rightarrow> post_outcome" where
  "example_upstream n key prompt max_tokens =
     (if n < length example_contents then Body (chat_body (example_contents ! n))
      else PostFailed ''timed out'')"

definition example_json :: "(string \<times> py) list" where
  \<open>example_json =
     [(''{"summary": "S", "key_points": ["K"]}'',
         PyDict [(''summary'', PyStr ''S''), (''key_points'', PyList [PyStr ''K''])]),
      (''{"questions": [{"question": "Q", "options": ["A", "B"], "correct_answer": 1, "explanation": "E"}]}'',
         PyDict [(''questions'', PyList [PyDict [(''question'', PyStr ''Q''),
            (''options'', PyList [PyStr ''A'', PyStr ''B'']), (''correct_answer'', PyInt 1),
            (''explanation'', PyStr ''E'')]])]),
      (''{"flashcards": [{"front": "F", "back": "G"}]}'',
         PyDict [(''flashcards'', PyList [PyDict [(''front'', PyStr ''F''), (''back'', PyStr ''G'')]])]),
      (''{"summary": "S2", "key_points": []}'',
         PyDict [(''summary'', PyStr ''S2''), (''key_points'', PyList [])]),
      (''{"questions": []}'', PyDict [(''questions'', PyList [])]),
      (''{"flashcards": []}'', PyDict [(''flashcards'', PyList [])]),
      (''{"questions": [{"options": ["A", "B"], "correct_answer": 2}]}'',
         PyDict [(''questions'', PyList [PyDict [(''options'', PyList [PyStr ''A'', PyStr ''B'']),
            (''correct_answer'', PyInt 2)]])])]\<close>

definition example_loads :: "string \<Rightarrow> string + py" where
  "example_loads s = (case map_of example_json s of Some v \<Rightarrow> Inr v | None \<Rightarrow> Inl ''Expecting value'')"

definition example_pdf_pages :: "nat list \<Rightarrow> exn + string list" where
  "example_pdf_pages bytes =
     (if bytes = [37, 80, 68, 70, 45, 49] then Inr [''Hello world'']
      else if bytes = [37, 80, 68, 70, 45, 48] then Inr ['' '', '''']
      else Inl (LibraryError ''EOF marker not found''))"

definition example_env :: environment where
  "example_env =
     \<lparr>os_environ = Map.empty,
      clock = example_clock,
      upstream = example_upstream,
      json_loads = example_loads,
      pdf_pages = example_pdf_pages,
      coerce_str = (\<lambda>v. case v of PyStr s \<Rightarrow> Some s | _ \<Rightarrow> None),
      coerce_int = (\<lambda>v. case v of PyInt i \<Rightarrow> Some i | _ \<Rightarrow> None)\<rparr>"

definition empty_world :: world where
  "empty_world = \<lparr>documents_storage = Map.empty, clock_reads = 0, requests_sent = 0, files_read = 0\<rparr>"

definition text_pdf :: UploadFile where
  "text_pdf = \<lparr>filename = ''Notes.PDF'', file_bytes = [37, 80, 68, 70, 45, 49]\<rparr>"

definition blank_pdf :: UploadFile where
  "blank_pdf = \<lparr>filename = ''blank.pdf'', file_bytes = [37, 80, 68, 70, 45, 48]\<rparr>"


text \<open>
  The same environment with the variable set to the empty string; and the state reached
  from the empty one by uploading \<open>text_pdf\<close> under the title \<open>Notes\<close>.
\<close>

definition keyless_env :: environment where
  "keyless_env = example_env\<lparr>os_environ := [''OPENROUTER_API_KEY'' \<mapsto> []]\<rparr>"

definition example_document :: document where
  "example_document =
     \<lparr>doc_id = ''1700000000'', title = ''Notes'',
      created_at = ''2023-11-14T22:13:20.001001'',
      user_id = ''default-user-id'',
      file_path = ''/uploads/1700000000.pdf'',
      pdf_text = ''Hello world'', processed = False,
      summary = None, flashcards = None, quiz = None\<rparr>"

definition uploaded_world :: world where
  "uploaded_world =
     \<lparr>documents_storage = [''1700000000'' \<mapsto> example_document],
      clock_reads = 3, requests_sent = 0, files_read = 1\<rparr>"



section \<open>Properties\<close>

subsection \<open>Prompt builder\<close>

lemma sublist_in_tail: "sublist xs zs \<Longrightarrow> sublist xs (ys @ t @ zs)"
  by (simp add: sublist_append)

lemma json_format_summary: "sublist ''JSON format'' (create_summary_prompt text)"
  unfolding create_summary_prompt_def
  by (rule sublist_in_tail) (simp add: sublist_Cons_right)

lemma json_format_quiz: "sublist ''JSON format'' (create_quiz_prompt text)"
  unfolding create_quiz_prompt_def
  by (rule sublist_in_tail) (simp add: sublist_Cons_right)

lemma json_format_flashcards: "sublist ''JSON format'' (create_flashcards_prompt text)"
  unfolding create_flashcards_prompt_def
  by (rule sublist_in_tail) (simp add: sublist_Cons_right)

text \<open>
  Claim C7. Each of the three prompt builders returns a string that contains the input
  text verbatim as a contiguous substring and contains the phrase \<open>JSON format\<close>. This
  holds for every input text, the non-empty ones in particular.
\<close>

theorem prompts_embed_text_and_format:
  "sublist text (create_summary_prompt text)
   \<and> sublist ''JSON format'' (create_summary_prompt text)
   \<and> sublist text (create_quiz_prompt text)
   \<and> sublist ''JSON format'' (create_quiz_prompt text)
   \<and> sublist text (create_flashcards_prompt text)
   \<and> sublist ''JSON format'' (create_flashcards_prompt text)"
proof -
  have "sublist text (create_summary_prompt text)"
    unfolding create_summary_prompt_def by (rule sublist_appendI)
  moreover have "sublist text (create_quiz_prompt text)"
    unfolding create_quiz_prompt_def by (rule sublist_appendI)
  moreover have "sublist text (create_flashcards_prompt text)"
    unfolding create_flashcards_prompt_def by (rule sublist_appendI)
  ultimately show ?thesis
    using json_format_summary json_format_quiz json_format_flashcards by blast
qed

subsection \<open>The file-name check\<close>

lemma of_char_lower_char:
  "(of_char (lower_char c) :: nat) =
     (if (65 \<le> (of_char c :: nat) \<and> (of_char c :: nat) \<le> 90)
         \<or> (192 \<le> (of_char c :: nat) \<and> (of_char c :: nat) \<le> 222 \<and> (of_char c :: nat) \<noteq> 215)
      then of_char c + 32 else of_char c)"
  by (auto simp: lower_char_def Let_def)

lemma char_eq_code: "c = d \<longleftrightarrow> (of_char c :: nat) = of_char d"
  by simp

lemma lower_char_p: "lower_char c = CHR ''p'' \<longleftrightarrow> c = CHR ''p'' \<or> c = CHR ''P''"
  unfolding char_eq_code [of "lower_char c"] char_eq_code [of c] of_char_lower_char
  by (simp split: if_splits) arith

lemma lower_char_d: "lower_char c = CHR ''d'' \<longleftrightarrow> c = CHR ''d'' \<or> c = CHR ''D''"
  unfolding char_eq_code [of "lower_char c"] char_eq_code [of c] of_char_lower_char
  by (simp split: if_splits) arith

lemma lower_char_f: "lower_char c = CHR ''f'' \<longleftrightarrow> c = CHR ''f'' \<or> c = CHR ''F''"
  unfolding char_eq_code [of "lower_char c"] char_eq_code [of c] of_char_lower_char
  by (simp split: if_splits) arith

lemma lower_char_dot: "lower_char c = CHR ''.'' \<longleftrightarrow> c = CHR ''.''"
  unfolding char_eq_code [of "lower_char c"] char_eq_code [of c] of_char_lower_char
  by (simp split: if_splits)

lemma lower_char_ext:
  "CHR ''p'' = lower_char c \<longleftrightarrow> c = CHR ''p'' \<or> c = CHR ''P''"
  "CHR ''d'' = lower_char c \<longleftrightarrow> c = CHR ''d'' \<or> c = CHR ''D''"
  "CHR ''f'' = lower_char c \<longleftrightarrow> c = CHR ''f'' \<or> c = CHR ''F''"
  "CHR ''.'' = lower_char c \<longleftrightarrow> c = CHR ''.''"
proof -
  show "CHR ''p'' = lower_char c \<longleftrightarrow> c = CHR ''p'' \<or> c = CHR ''P''"
    by (metis lower_char_p)
  show "CHR ''d'' = lower_char c \<longleftrightarrow> c = CHR ''d'' \<or> c = CHR ''D''"
    by (metis lower_char_d)
  show "CHR ''f'' = lower_char c \<longleftrightarrow> c = CHR ''f'' \<or> c = CHR ''F''"
    by (metis lower_char_f)
  show "CHR ''.'' = lower_char c \<longleftrightarrow> c = CHR ''.''"
    by (metis lower_char_dot)
qed

lemma endswith_pdf_iff: "endswith (lower name) ''.pdf'' \<longleftrightarrow> has_pdf_extension name"
proof -
  have "endswith (lower name) ''.pdf'' \<longleftrightarrow> prefix ''fdp.'' (map lower_char (rev name))"
    unfolding endswith_def lower_def suffix_to_prefix by (simp add: rev_map)
  also have "\<dots> \<longleftrightarrow> has_pdf_extension name"
    unfolding has_pdf_extension_def
    by (auto simp: lower_char_ext split: list.splits)
  finally show ?thesis .
qed

subsection \<open>Running actions\<close>

lemma run_ret: "ret x w = (Inr x, w)"
  by (simp add: ret_def)

lemma run_raise: "raise e w = (Inl e, w)"
  by (simp add: raise_def)

lemma run_lift: "lift r w = (r, w)"
  by (simp add: lift_def)

lemma run_now: "now env w = (Inr (clock env (clock_reads w)), w\<lparr>clock_reads := clock_reads w + 1\<rparr>)"
  by (simp add: now_def)

lemma bnd_ok: "m w = (Inr x, w1) \<Longrightarrow> bnd m f w = f x w1"
  by (simp add: bnd_def)

lemma bnd_fail: "m w = (Inl e, w1) \<Longrightarrow> bnd m f w = (Inl e, w1)"
  by (simp add: bnd_def)

lemma bnd_success:
  "bnd m f w = (Inr r, w') \<longleftrightarrow> (\<exists>x w1. m w = (Inr x, w1) \<and> f x w1 = (Inr r, w'))"
  by (auto simp: bnd_def split: prod.splits sum.splits)

lemma try_ok: "m w = (Inr x, w1) \<Longrightarrow> try_except m h w = (Inr x, w1)"
  by (simp add: try_except_def)

lemma try_fail: "m w = (Inl e, w1) \<Longrightarrow> try_except m h w = h e w1"
  by (simp add: try_except_def)

lemma try_success_wrap:
  "try_except m (\<lambda>e. raise (g e)) w = (Inr r, w') \<longleftrightarrow> m w = (Inr r, w')"
  by (auto simp: try_except_def raise_def split: prod.splits sum.splits)

subsection \<open>Rejected file names\<close>

text \<open>
  Claim C8. When the uploaded file's name does not end in \<^verbatim>\<open>.pdf\<close> (in any mix of upper
  and lower case), \<^verbatim>\<open>POST /upload-pdf\<close> and \<^verbatim>\<open>POST /documents/upload\<close> both answer 400, and
  the state is returned untouched: in particular no file has been read, so no text
  extraction was attempted.
\<close>

theorem non_pdf_upload_rejected:
  assumes "\<not> has_pdf_extension (filename pdf)"
  shows "upload_and_process_pdf env pdf w
           = (Inl (HTTPException 400 (Text ''Only PDF files are allowed'')), w)
         \<and> upload_document env pdf ttl w
           = (Inl (HTTPException 400 (Text ''File must be a PDF'')), w)
         \<and> files_read (snd (upload_and_process_pdf env pdf w)) = files_read w
         \<and> files_read (snd (upload_document env pdf ttl w)) = files_read w"
  using assms
  by (simp add: upload_and_process_pdf_def upload_document_def endswith_pdf_iff run_raise)

theorem non_pdf_upload_rejected_witness:
  "\<not> has_pdf_extension ''report.pdf.txt''
   \<and> upload_and_process_pdf example_env \<lparr>filename = ''report.pdf.txt'', file_bytes = [37, 80, 68, 70, 45, 49]\<rparr> empty_world
       = (Inl (HTTPException 400 (Text ''Only PDF files are allowed'')), empty_world)
   \<and> upload_document example_env \<lparr>filename = ''report.pdf.txt'', file_bytes = [37, 80, 68, 70, 45, 49]\<rparr> ''Report'' empty_world
       = (Inl (HTTPException 400 (Text ''File must be a PDF'')), empty_world)"
  using non_pdf_upload_rejected [of "\<lparr>filename = ''report.pdf.txt'', file_bytes = [37, 80, 68, 70, 45, 49]\<rparr>"
      example_env empty_world "''Report''"]
  by (simp add: has_pdf_extension_def)

subsection \<open>Locating the braces\<close>


















subsection \<open>Status codes raised inside a \<^verbatim>\<open>try\<close> block\<close>

lemmas run_simps = run_ret run_raise run_lift run_now bnd_def try_except_def

lemma process_document_unknown:
  assumes "documents_storage w document_id = None"
  shows "process_document env document_id w
           = (Inl (HTTPException 500 (Fmt ''Error processing document: ''
                     (HTTPException 404 (Text ''Document not found'')))), w)"
  using assms by (simp add: process_document_def run_simps)

lemma process_document_no_text:
  assumes "documents_storage w document_id = Some d" "pdf_text d = []"
  shows "process_document env document_id w
           = (Inl (HTTPException 500 (Fmt ''Error processing document: ''
                     (HTTPException 400 (Text ''No text content found for this document'')))), w)"
  using assms by (simp add: process_document_def derive_outputs_def run_simps)

text \<open>
  Claim C1, evaluated on the code. \<^verbatim>\<open>POST /documents/{id}/process\<close> with an id that is not
  in the store: the handler raises the 404 inside its own \<^verbatim>\<open>try\<close> block, whose
  \<^verbatim>\<open>except Exception\<close> catches it and raises a 500 in its place. The response status is
  500, not 404. (The 400 for an empty stored text is wrapped in the same way.)
\<close>

theorem process_unknown_id_answers_500:
  "documents_storage empty_world ''1699999999'' = None
   \<and> process_document example_env ''1699999999'' empty_world
       = (Inl (HTTPException 500 (Fmt ''Error processing document: ''
                 (HTTPException 404 (Text ''Document not found'')))), empty_world)
   \<and> map_sum status_code id (fst (process_document example_env ''1699999999'' empty_world))
       = Inl (Some 500)"
  by (simp add: process_document_unknown empty_world_def)

lemma is_space_simps:
  "is_space CHR '' ''" "\<not> is_space CHR ''H''" "\<not> is_space CHR ''d''" "is_space CHR ''\<newline>''"
  by (simp_all add: is_space_def)

lemma blank_pdf_text:
  "extract_text_from_pdf example_env blank_pdf w = (Inr [], w\<lparr>files_read := files_read w + 1\<rparr>)"
  by (simp add: extract_text_from_pdf_def run_simps example_env_def example_pdf_pages_def
      blank_pdf_def strip_def is_space_simps)

text \<open>
  Claim C4, evaluated on the code. A PDF whose pages hold only white space:
  \<^verbatim>\<open>POST /upload-pdf\<close> answers 400 ``No text found in PDF'', but in
  \<^verbatim>\<open>POST /documents/upload\<close> the same 400 is raised inside the \<^verbatim>\<open>try\<close> block and comes
  out as a 500.
\<close>

theorem blank_pdf_upload_answers_500:
  "upload_document example_env blank_pdf ''Blank'' empty_world
     = (Inl (HTTPException 500 (Fmt ''Error uploading document: ''
               (HTTPException 400 (Text ''No text found in PDF'')))),
        empty_world\<lparr>files_read := 1\<rparr>)
   \<and> upload_and_process_pdf example_env blank_pdf empty_world
     = (Inl (HTTPException 400 (Text ''No text found in PDF'')), empty_world\<lparr>files_read := 1\<rparr>)"
proof -
  have ext: "endswith (lower (filename blank_pdf)) ''.pdf''"
    by (simp add: endswith_pdf_iff has_pdf_extension_def blank_pdf_def)
  have s: "strip [] = []" by (simp add: strip_def)
  show ?thesis
    by (simp add: upload_document_def upload_and_process_pdf_def ext blank_pdf_text run_simps s
        empty_world_def)
qed

lemma text_pdf_text_gen:
  "pdf_pages env = example_pdf_pages \<Longrightarrow>
   extract_text_from_pdf env text_pdf w = (Inr ''Hello world'', w\<lparr>files_read := files_read w + 1\<rparr>)"
  by (simp add: extract_text_from_pdf_def run_simps example_pdf_pages_def
      text_pdf_def strip_def is_space_simps)

lemma text_pdf_text:
  "extract_text_from_pdf example_env text_pdf w = (Inr ''Hello world'', w\<lparr>files_read := files_read w + 1\<rparr>)"
  by (rule text_pdf_text_gen) (simp add: example_env_def)


subsection \<open>Document ids\<close>

lemma example_env_sel:
  "os_environ example_env = Map.empty"
  "clock example_env = example_clock"
  "upstream example_env = example_upstream"
  "json_loads example_env = example_loads"
  "pdf_pages example_env = example_pdf_pages"
  "coerce_str example_env = (\<lambda>v. case v of PyStr s \<Rightarrow> Some s | _ \<Rightarrow> None)"
  "coerce_int example_env = (\<lambda>v. case v of PyInt i \<Rightarrow> Some i | _ \<Rightarrow> None)"
  by (simp_all add: example_env_def)

lemma text_pdf_ext: "endswith (lower (filename text_pdf)) ''.pdf''"
  by (simp add: endswith_pdf_iff has_pdf_extension_def text_pdf_def)

lemma strip_hello: "strip ''Hello world'' = ''Hello world''"
  by (simp add: strip_def is_space_simps)

lemma upload_text_pdf:
  "upload_document example_env text_pdf ttl w =
     (Inr (PyDict [(''title'', PyStr ttl),
                   (''id'', PyStr (str_int (int_timestamp (example_clock (clock_reads w))))),
                   (''created_at'', PyStr (isoformat (example_clock (clock_reads w + 2))))]),
      w\<lparr>files_read := files_read w + 1, clock_reads := clock_reads w + 3,
        documents_storage := (documents_storage w)
          (str_int (int_timestamp (example_clock (clock_reads w))) \<mapsto>
             \<lparr>doc_id = str_int (int_timestamp (example_clock (clock_reads w))), title = ttl,
              created_at = isoformat (example_clock (clock_reads w + 1)),
              user_id = ''default-user-id'',
              file_path = ''/uploads/'' @ str_int (int_timestamp (example_clock (clock_reads w))) @ ''.pdf'',
              pdf_text = ''Hello world'', processed = False,
              summary = None, flashcards = None, quiz = None\<rparr>)\<rparr>)"
  by (simp add: upload_document_def text_pdf_ext text_pdf_text strip_hello run_simps Let_def
      example_env_sel)

lemma example_ids:
  "str_int (int_timestamp (example_clock 0)) = ''1700000000''"
  "str_int (int_timestamp (example_clock 3)) = ''1700000000''"
  by (simp_all add: str_int_def int_timestamp_def example_clock_def digit_char_def)

text \<open>
  Claim C3, evaluated on the code. The document id is the creation time cut down to whole
  seconds. Two successful uploads whose clock readings are strictly increasing but fall
  into the same second get the same id, and the second record replaces the first.
\<close>

theorem same_second_uploads_share_id:
  "fst (upload_document example_env text_pdf ''First'' empty_world)
     = Inr (PyDict [(''title'', PyStr ''First''), (''id'', PyStr ''1700000000''),
                    (''created_at'', PyStr ''2023-11-14T22:13:20.002001'')])
   \<and> fst (upload_document example_env text_pdf ''Second''
            (snd (upload_document example_env text_pdf ''First'' empty_world)))
     = Inr (PyDict [(''title'', PyStr ''Second''), (''id'', PyStr ''1700000000''),
                    (''created_at'', PyStr ''2023-11-14T22:13:20.005001'')])
   \<and> timestamp_us (example_clock 0) < timestamp_us (example_clock 3)
   \<and> dom (documents_storage (snd (upload_document example_env text_pdf ''Second''
            (snd (upload_document example_env text_pdf ''First'' empty_world))))) = {''1700000000''}
   \<and> map_option title (documents_storage (snd (upload_document example_env text_pdf ''Second''
            (snd (upload_document example_env text_pdf ''First'' empty_world)))) ''1700000000'')
     = Some ''Second''"
  by (simp add: upload_text_pdf empty_world_def example_ids)
     (simp add: example_clock_def pad6_def digit_char_def)


subsection \<open>The API key\<close>

lemma key_empty:
  "os_environ env ''OPENROUTER_API_KEY'' = Some [] \<Longrightarrow> OPENROUTER_API_KEY env = []"
  by (simp add: OPENROUTER_API_KEY_def getenv_def)

lemma key_default:
  "os_environ env ''OPENROUTER_API_KEY'' = None \<Longrightarrow> OPENROUTER_API_KEY env \<noteq> []"
  by (simp add: OPENROUTER_API_KEY_def getenv_def)

lemma call_without_key:
  "OPENROUTER_API_KEY env = [] \<Longrightarrow>
   call_openrouter_api env prompt max_tokens w
     = (Inl (HTTPException 500 (Text ''OpenRouter API key not configured'')), w)"
  by (simp add: call_openrouter_api_def run_raise)

text \<open>
  Claim C2, as amended. When \<^verbatim>\<open>OPENROUTER_API_KEY\<close> is set to the empty string, every
  generation endpoint fails with status 500 on every input that reaches the gateway step,
  the detail wrapping the gateway's own 500 ``OpenRouter API key not configured'', and
  no request is sent upstream. (When the variable is absent, \<^verbatim>\<open>os.getenv\<close> returns the
  default key written in the source, and the gateway's check passes.)
\<close>

theorem empty_key_fails_generation_endpoints:
  assumes "os_environ env ''OPENROUTER_API_KEY'' = Some []"
  shows "(strip text \<noteq> [] \<longrightarrow>
            generate_summary env text w
              = (Inl (HTTPException 500 (Fmt ''Error generating summary: ''
                   (HTTPException 500 (Text ''OpenRouter API key not configured'')))), w)
          \<and> generate_quiz env text w
              = (Inl (HTTPException 500 (Fmt ''Error generating quiz: ''
                   (HTTPException 500 (Text ''OpenRouter API key not configured'')))), w)
          \<and> generate_flashcards env text w
              = (Inl (HTTPException 500 (Fmt ''Error generating flashcards: ''
                   (HTTPException 500 (Text ''OpenRouter API key not configured'')))), w))
       \<and> (has_pdf_extension (filename pdf) \<and> extract_text_from_pdf env pdf w = (Inr txt, w1)
            \<and> strip txt \<noteq> [] \<longrightarrow>
            upload_and_process_pdf env pdf w
              = (Inl (HTTPException 500 (Fmt ''Error processing PDF: ''
                   (HTTPException 500 (Text ''OpenRouter API key not configured'')))), w1))
       \<and> (documents_storage w document_id = Some d \<and> pdf_text d \<noteq> [] \<longrightarrow>
            process_document env document_id w
              = (Inl (HTTPException 500 (Fmt ''Error processing document: ''
                   (HTTPException 500 (Text ''OpenRouter API key not configured'')))), w))"
proof -
  note k = call_without_key [OF key_empty [OF assms]]
  have g: "strip text \<noteq> [] \<longrightarrow>
            generate_summary env text w
              = (Inl (HTTPException 500 (Fmt ''Error generating summary: ''
                   (HTTPException 500 (Text ''OpenRouter API key not configured'')))), w)
          \<and> generate_quiz env text w
              = (Inl (HTTPException 500 (Fmt ''Error generating quiz: ''
                   (HTTPException 500 (Text ''OpenRouter API key not configured'')))), w)
          \<and> generate_flashcards env text w
              = (Inl (HTTPException 500 (Fmt ''Error generating flashcards: ''
                   (HTTPException 500 (Text ''OpenRouter API key not configured'')))), w)"
    by (simp add: generate_summary_def generate_quiz_def generate_flashcards_def k run_simps)
  have u: "has_pdf_extension (filename pdf) \<and> extract_text_from_pdf env pdf w = (Inr txt, w1)
            \<and> strip txt \<noteq> [] \<longrightarrow>
            upload_and_process_pdf env pdf w
              = (Inl (HTTPException 500 (Fmt ''Error processing PDF: ''
                   (HTTPException 500 (Text ''OpenRouter API key not configured'')))), w1)"
    by (simp add: upload_and_process_pdf_def endswith_pdf_iff k run_simps)
  have p: "documents_storage w document_id = Some d \<and> pdf_text d \<noteq> [] \<longrightarrow>
            process_document env document_id w
              = (Inl (HTTPException 500 (Fmt ''Error processing document: ''
                   (HTTPException 500 (Text ''OpenRouter API key not configured'')))), w)"
    by (simp add: process_document_def derive_outputs_def k run_simps)
  from g u p show ?thesis by blast
qed

subsection \<open>Runs in the example environment\<close>

lemma example_key: "OPENROUTER_API_KEY example_env \<noteq> []"
  by (rule key_default) (simp add: example_env_sel)

lemma message_content_chat_body: "message_content (chat_body c) = Inr (PyStr c)"
  by (simp add: message_content_def chat_body_def seq_index_def)

lemma example_call:
  assumes "requests_sent w < length example_contents"
  shows "call_openrouter_api example_env prompt max_tokens w
           = (Inr (PyStr (example_contents ! requests_sent w)),
              w\<lparr>requests_sent := requests_sent w + 1\<rparr>)"
  using assms example_key
  by (simp add: call_openrouter_api_def example_env_sel example_upstream_def
      message_content_chat_body Let_def)

lemma example_parse_summary:
  \<open>parse_json_response example_env (PyStr ''{"summary": "S", "key_points": ["K"]}'')
     = Inr (PyDict [(''summary'', PyStr ''S''), (''key_points'', PyList [PyStr ''K''])])\<close>
  by (simp add: parse_json_text_def Let_def str_slice_def clamp_index_def
      example_env_sel example_loads_def example_json_def)

text \<open>
  Claim C2 as stated fails: with the variable absent the key is the built-in default,
  the request goes upstream and \<^verbatim>\<open>/generate-summary\<close> answers with a summary.
\<close>

theorem absent_key_uses_default_key:
  "os_environ example_env ''OPENROUTER_API_KEY'' = None
   \<and> generate_summary example_env ''Hello world'' empty_world
     = (Inr (PyDict [(''summary'', PyStr ''S''), (''key_points'', PyList [PyStr ''K''])]),
        empty_world\<lparr>requests_sent := 1\<rparr>)"
proof -
  have c: "call_openrouter_api example_env (create_summary_prompt ''Hello world'') 2000 empty_world
             = (Inr (PyStr (example_contents ! 0)), empty_world\<lparr>requests_sent := 1\<rparr>)"
    using example_call [of empty_world] by (simp add: empty_world_def example_contents_def)
  have v: "SummaryResponse example_env
             (PyDict [(''summary'', PyStr ''S''), (''key_points'', PyList [PyStr ''K''])])
           = Inr (PyDict [(''summary'', PyStr ''S''), (''key_points'', PyList [PyStr ''K''])])"
    by (simp add: SummaryResponse_def model_init_def SummaryResponse_fields_def str_field_def
        list_field_def example_env_sel)
  have s: "strip ''Hello world'' \<noteq> []"
    by (simp add: strip_hello)
  show ?thesis
    using s by (simp add: generate_summary_def c run_simps example_contents_def
        example_parse_summary v example_env_sel del: parse_json_response.simps)
qed


lemma uploaded_world_reached:
  "snd (upload_document example_env text_pdf ''Notes'' empty_world) = uploaded_world"
  by (simp add: upload_text_pdf empty_world_def example_ids uploaded_world_def example_document_def)
     (simp add: example_clock_def pad6_def digit_char_def)

theorem empty_key_fails_generation_endpoints_witness:
  "os_environ keyless_env ''OPENROUTER_API_KEY'' = Some []
   \<and> generate_summary keyless_env ''Hello world'' uploaded_world
       = (Inl (HTTPException 500 (Fmt ''Error generating summary: ''
            (HTTPException 500 (Text ''OpenRouter API key not configured'')))), uploaded_world)
   \<and> generate_quiz keyless_env ''Hello world'' uploaded_world
       = (Inl (HTTPException 500 (Fmt ''Error generating quiz: ''
            (HTTPException 500 (Text ''OpenRouter API key not configured'')))), uploaded_world)
   \<and> generate_flashcards keyless_env ''Hello world'' uploaded_world
       = (Inl (HTTPException 500 (Fmt ''Error generating flashcards: ''
            (HTTPException 500 (Text ''OpenRouter API key not configured'')))), uploaded_world)
   \<and> upload_and_process_pdf keyless_env text_pdf uploaded_world
       = (Inl (HTTPException 500 (Fmt ''Error processing PDF: ''
            (HTTPException 500 (Text ''OpenRouter API key not configured'')))),
          uploaded_world\<lparr>files_read := files_read uploaded_world + 1\<rparr>)
   \<and> process_document keyless_env ''1700000000'' uploaded_world
       = (Inl (HTTPException 500 (Fmt ''Error processing document: ''
            (HTTPException 500 (Text ''OpenRouter API key not configured'')))), uploaded_world)"
proof -
  have k: "os_environ keyless_env ''OPENROUTER_API_KEY'' = Some []"
    by (simp add: keyless_env_def)
  have x: "extract_text_from_pdf keyless_env text_pdf uploaded_world
             = (Inr ''Hello world'', uploaded_world\<lparr>files_read := files_read uploaded_world + 1\<rparr>)"
    by (rule text_pdf_text_gen) (simp add: keyless_env_def example_env_def)
  have e: "has_pdf_extension (filename text_pdf)"
    by (simp add: has_pdf_extension_def text_pdf_def)
  have d: "documents_storage uploaded_world ''1700000000'' = Some example_document"
    "pdf_text example_document \<noteq> []"
    by (simp_all add: uploaded_world_def example_document_def)
  show ?thesis
    using empty_key_fails_generation_endpoints [OF k, of "''Hello world''" uploaded_world text_pdf
        "''Hello world''" "uploaded_world\<lparr>files_read := files_read uploaded_world + 1\<rparr>"
        "''1700000000''" example_document]
      k x e d strip_hello
    by simp
qed





subsection \<open>Actions that leave the store alone\<close>

lemma store_blindD:
  "store_blind m \<Longrightarrow> m (w\<lparr>documents_storage := s\<rparr>) = (fst (m w), (snd (m w))\<lparr>documents_storage := s\<rparr>)"
  by (simp add: store_blind_def)

lemma store_blind_keeps:
  assumes "store_blind m"
  shows "documents_storage (snd (m w)) = documents_storage w"
proof -
  have "m (w\<lparr>documents_storage := documents_storage w\<rparr>)
          = (fst (m w), (snd (m w))\<lparr>documents_storage := documents_storage w\<rparr>)"
    by (rule store_blindD [OF assms])
  then have "snd (m w) = (snd (m w))\<lparr>documents_storage := documents_storage w\<rparr>"
    by (metis snd_conv world.update_convs(1) world.surjective world.simps(1) world.unfold_congs(1))
  then have "documents_storage (snd (m w))
               = documents_storage ((snd (m w))\<lparr>documents_storage := documents_storage w\<rparr>)"
    by simp
  then show ?thesis by simp
qed

lemma store_blind_ret: "store_blind (ret x)"
  by (simp add: store_blind_def ret_def)

lemma store_blind_raise: "store_blind (raise e)"
  by (simp add: store_blind_def raise_def)

lemma store_blind_lift: "store_blind (lift r)"
  by (simp add: store_blind_def lift_def)

lemma store_blind_now: "store_blind (now env)"
  by (simp add: store_blind_def now_def)

lemma store_blind_call: "store_blind (call_openrouter_api env prompt max_tokens)"
  by (simp add: store_blind_def call_openrouter_api_def raise_def Let_def
      split: post_outcome.splits sum.splits exn.splits)

lemma store_blind_bnd:
  assumes "store_blind m" "\<And>x. store_blind (f x)"
  shows "store_blind (bnd m f)"
  unfolding store_blind_def
proof (intro allI)
  fix w s
  obtain r w1 where mw: "m w = (r, w1)" by (cases "m w")
  have ms: "m (w\<lparr>documents_storage := s\<rparr>) = (r, w1\<lparr>documents_storage := s\<rparr>)"
    using store_blindD [OF assms(1), where w = w and s = s] mw by simp
  show "bnd m f (w\<lparr>documents_storage := s\<rparr>)
          = (fst (bnd m f w), (snd (bnd m f w))\<lparr>documents_storage := s\<rparr>)"
  proof (cases r)
    case (Inl e)
    then show ?thesis by (simp add: bnd_def mw ms)
  next
    case (Inr x)
    then show ?thesis
      using store_blindD [OF assms(2) [of x], where w = w1 and s = s] by (simp add: bnd_def mw ms)
  qed
qed

lemma store_blind_flashcards_loop: "store_blind (flashcards_loop env document_id i cards)"
  by (induction cards arbitrary: i)
     (auto intro!: store_blind_bnd store_blind_ret store_blind_lift store_blind_now)

lemma store_blind_quiz_loop: "store_blind (quiz_loop env document_id i qs)"
  by (induction qs arbitrary: i)
     (auto intro!: store_blind_bnd store_blind_ret store_blind_lift store_blind_now)

lemma store_blind_derive_outputs: "store_blind (derive_outputs env document_id d)"
  unfolding derive_outputs_def
  by (auto intro!: store_blind_bnd store_blind_ret store_blind_lift store_blind_now
      store_blind_raise store_blind_call store_blind_flashcards_loop store_blind_quiz_loop)

lemma derive_outputs_keeps_store:
  "derive_outputs env document_id d w = (res, w1) \<Longrightarrow> documents_storage w1 = documents_storage w"
  using store_blind_keeps [OF store_blind_derive_outputs, of env document_id d w] by simp


subsection \<open>What a successful run went through\<close>

lemma call_success:
  assumes "call_openrouter_api env prompt max_tokens w = (Inr c, w1)"
  shows "w1 = w\<lparr>requests_sent := requests_sent w + 1\<rparr>"
    and "\<exists>b. upstream env (requests_sent w) (OPENROUTER_API_KEY env) prompt max_tokens = Body b
             \<and> message_content b = Inr c"
  using assms
  by (auto simp: call_openrouter_api_def raise_def Let_def
      split: if_splits post_outcome.splits sum.splits exn.splits)

lemma correct_answer_indexed:
  assumes "map_of kvs ''options'' = Some (PyList os)" "os \<noteq> []"
      and "map_of kvs ''correct_answer'' = Some (PyInt k)"
  shows "correct_answer (PyDict kvs) = seq_index os k"
  using assms by (simp add: correct_answer_def)




lemma seq_index_in_range:
  "seq_index xs k = Inr x \<Longrightarrow>
     - int (length xs) \<le> k \<and> k < int (length xs)
     \<and> x = xs ! nat (if k < 0 then int (length xs) + k else k)"
  by (auto simp: seq_index_def split: if_splits)

lemma quiz_loop_success:
  assumes "quiz_loop env document_id i items w = (Inr stored, w1)"
  shows "list_all2 (\<lambda>q s. \<exists>c. correct_answer q = Inr c
                          \<and> dict_get s ''correct_answer'' PyNone = Inr c) items stored"
  using assms
proof (induction items arbitrary: i w stored w1)
  case Nil
  then show ?case by (simp add: run_ret)
next
  case (Cons q qs)
  from Cons.prems obtain question options correct rest wa wb
    where c: "correct_answer q = Inr correct"
      and r: "quiz_loop env document_id (i + 1) qs wa = (Inr rest, wb)"
      and s: "stored = PyDict [(''id'', PyStr (''q-'' @ document_id @ ''-'' @ str_int (int i + 1))),
                  (''quiz_id'', PyStr (''quiz-'' @ document_id)),
                  (''question'', question),
                  (''options'', options),
                  (''correct_answer'', correct),
                  (''created_at'', PyStr (isoformat (clock env (clock_reads w))))] # rest"
    by (auto simp: bnd_success run_lift run_ret run_now)
  have "list_all2 (\<lambda>q s. \<exists>c. correct_answer q = Inr c
                          \<and> dict_get s ''correct_answer'' PyNone = Inr c) qs rest"
    by (rule Cons.IH [OF r])
  then show ?case
    using c s by simp
qed

lemma derive_outputs_success:
  assumes "derive_outputs env document_id d w = (Inr outs, w1)"
  shows "\<exists>items stored wa wb.
           model_questions env d w = Some items
           \<and> quiz_loop env document_id 0 items wa = (Inr stored, wb)
           \<and> dict_get (snd (snd outs)) ''questions'' PyNone = Inr (PyList stored)"
proof -
  from assms have t: "pdf_text d \<noteq> []"
    by (auto simp: derive_outputs_def run_raise split: if_splits)
  from assms t obtain sresp w2 sdata qresp w3 qdata questions items stored wa wb
    where c1: "call_openrouter_api env (create_summary_prompt (pdf_text d)) 2000 w = (Inr sresp, w2)"
      and c2: "call_openrouter_api env (create_quiz_prompt (pdf_text d)) 2000 w2 = (Inr qresp, w3)"
      and p2: "parse_json_response env qresp = Inr qdata"
      and g: "dict_get qdata ''questions'' (PyList []) = Inr questions"
      and it: "py_iter questions = Inr items"
      and l: "quiz_loop env document_id 0 items wa = (Inr stored, wb)"
      and o: "dict_get (snd (snd outs)) ''questions'' PyNone = Inr (PyList stored)"
    unfolding derive_outputs_def
    by (auto simp: bnd_success run_lift run_ret run_now)
  have w2: "w2 = w\<lparr>requests_sent := requests_sent w + 1\<rparr>"
    by (rule call_success(1) [OF c1])
  obtain b where b: "upstream env (requests_sent w2) (OPENROUTER_API_KEY env)
                       (create_quiz_prompt (pdf_text d)) 2000 = Body b"
      and m: "message_content b = Inr qresp"
    using call_success(2) [OF c2] by blast
  have "model_questions env d w = Some items"
    using b m p2 g it by (simp add: model_questions_def w2)
  then show ?thesis using l o by blast
qed


lemma process_document_success:
  assumes "process_document env document_id w = (Inr r, w')"
  shows "\<exists>d outs w1.
           documents_storage w document_id = Some d
           \<and> derive_outputs env document_id d w = (Inr outs, w1)
           \<and> w' = w1\<lparr>documents_storage := (documents_storage w)(document_id \<mapsto>
                     d\<lparr>summary := Some (fst outs), flashcards := Some (fst (snd outs)),
                       quiz := Some (snd (snd outs)), processed := True\<rparr>)\<rparr>"
proof -
  from assms obtain d where d: "documents_storage w document_id = Some d"
    by (cases "documents_storage w document_id")
       (auto simp: process_document_def try_success_wrap bnd_success run_raise)
  from assms d obtain outs w1 u
    where o: "derive_outputs env document_id d w = (Inr outs, w1)"
      and s: "store_outputs document_id outs w1 = (Inr u, w')"
    by (auto simp: process_document_def try_success_wrap bnd_success run_ret)
  have k: "documents_storage w1 = documents_storage w"
    by (rule derive_outputs_keeps_store [OF o])
  from s have "w' = w1\<lparr>documents_storage := (documents_storage w)(document_id \<mapsto>
                     d\<lparr>summary := Some (fst outs), flashcards := Some (fst (snd outs)),
                       quiz := Some (snd (snd outs)), processed := True\<rparr>)\<rparr>"
    by (auto simp: store_outputs_def k d)
  with d o show ?thesis by blast
qed

lemma process_document_run:
  assumes "documents_storage w document_id = Some d"
      and "derive_outputs env document_id d w = (Inr outs, w1)"
  shows "process_document env document_id w
           = (Inr (PyDict [(''status'', PyStr ''success''),
                           (''message'', PyStr ''Document processed successfully with AI-generated content''),
                           (''document_id'', PyStr document_id)]),
              w1\<lparr>documents_storage := (documents_storage w)(document_id \<mapsto>
                     d\<lparr>summary := Some (fst outs), flashcards := Some (fst (snd outs)),
                       quiz := Some (snd (snd outs)), processed := True\<rparr>)\<rparr>)"
  using assms derive_outputs_keeps_store [OF assms(2)]
  by (simp add: process_document_def run_simps store_outputs_def)


lemma get_processed_document:
  assumes "documents_storage w document_id = Some d" "processed d"
  shows "get_document env document_id w
           = (Inr (PyDict [(''id'', PyStr (doc_id d)),
                           (''title'', PyStr (title d)),
                           (''created_at'', PyStr (created_at d)),
                           (''user_id'', PyStr (user_id d)),
                           (''file_path'', PyStr (file_path d)),
                           (''summary'', opt_py (summary d) PyNone),
                           (''flashcards'', opt_py (flashcards d) (PyList [])),
                           (''quiz'', opt_py (quiz d) PyNone)]), w)"
  using assms by (simp add: get_document_def run_simps)



subsection \<open>Processing and fetching a document\<close>

text \<open>
  Claim C5. After a successful \<^verbatim>\<open>POST /documents/{id}/process\<close>, a following
  \<^verbatim>\<open>GET /documents/{id}\<close> returns the document with exactly the summary, flashcards and
  quiz that this run derived and stored. The stored quiz has one question for each
  question the model returned, in order, and wherever the model's question carries a
  non-empty options list \<open>os\<close> and an integer answer index \<open>k\<close>, the index is in Python's
  range for \<open>os\<close> and the stored \<^verbatim>\<open>correct_answer\<close> is the option at that index (position
  \<open>k\<close> from the front when \<open>k \<ge> 0\<close>, position \<open>-k\<close> from the back when \<open>k < 0\<close>).
\<close>

theorem processed_outputs_are_returned:
  assumes "process_document env document_id w = (Inr r, w')"
  shows "\<exists>d outs w1 items stored.
           documents_storage w document_id = Some d
         \<and> derive_outputs env document_id d w = (Inr outs, w1)
         \<and> get_document env document_id w'
             = (Inr (PyDict [(''id'', PyStr (doc_id d)),
                             (''title'', PyStr (title d)),
                             (''created_at'', PyStr (created_at d)),
                             (''user_id'', PyStr (user_id d)),
                             (''file_path'', PyStr (file_path d)),
                             (''summary'', fst outs),
                             (''flashcards'', fst (snd outs)),
                             (''quiz'', snd (snd outs))]), w')
         \<and> model_questions env d w = Some items
         \<and> dict_get (snd (snd outs)) ''questions'' PyNone = Inr (PyList stored)
         \<and> length stored = length items
         \<and> (\<forall>i<length items. \<forall>kvs os k.
               items ! i = PyDict kvs \<and> map_of kvs ''options'' = Some (PyList os) \<and> os \<noteq> []
               \<and> map_of kvs ''correct_answer'' = Some (PyInt k)
               \<longrightarrow> - int (length os) \<le> k \<and> k < int (length os)
                   \<and> dict_get (stored ! i) ''correct_answer'' PyNone
                       = Inr (os ! nat (if k < 0 then int (length os) + k else k)))"
proof -
  from process_document_success [OF assms] obtain d outs w1
    where d: "documents_storage w document_id = Some d"
      and o: "derive_outputs env document_id d w = (Inr outs, w1)"
      and w': "w' = w1\<lparr>documents_storage := (documents_storage w)(document_id \<mapsto>
                     d\<lparr>summary := Some (fst outs), flashcards := Some (fst (snd outs)),
                       quiz := Some (snd (snd outs)), processed := True\<rparr>)\<rparr>"
    by blast
  from derive_outputs_success [OF o] obtain items stored wa wb
    where m: "model_questions env d w = Some items"
      and l: "quiz_loop env document_id 0 items wa = (Inr stored, wb)"
      and q: "dict_get (snd (snd outs)) ''questions'' PyNone = Inr (PyList stored)"
    by blast
  let ?d' = "d\<lparr>summary := Some (fst outs), flashcards := Some (fst (snd outs)),
               quiz := Some (snd (snd outs)), processed := True\<rparr>"
  have "documents_storage w' document_id = Some ?d'" "processed ?d'"
    by (simp_all add: w')
  from get_processed_document [OF this, of env]
  have g: "get_document env document_id w'
             = (Inr (PyDict [(''id'', PyStr (doc_id d)),
                             (''title'', PyStr (title d)),
                             (''created_at'', PyStr (created_at d)),
                             (''user_id'', PyStr (user_id d)),
                             (''file_path'', PyStr (file_path d)),
                             (''summary'', fst outs),
                             (''flashcards'', fst (snd outs)),
                             (''quiz'', snd (snd outs))]), w')"
    by (simp add: opt_py_def)
  have a: "list_all2 (\<lambda>q s. \<exists>c. correct_answer q = Inr c
                          \<and> dict_get s ''correct_answer'' PyNone = Inr c) items stored"
    by (rule quiz_loop_success [OF l])
  then have len: "length stored = length items"
    by (simp add: list_all2_lengthD)
  have idx: "\<forall>i<length items. \<forall>kvs os k.
               items ! i = PyDict kvs \<and> map_of kvs ''options'' = Some (PyList os) \<and> os \<noteq> []
               \<and> map_of kvs ''correct_answer'' = Some (PyInt k)
               \<longrightarrow> - int (length os) \<le> k \<and> k < int (length os)
                   \<and> dict_get (stored ! i) ''correct_answer'' PyNone
                       = Inr (os ! nat (if k < 0 then int (length os) + k else k))"
  proof (intro allI impI)
    fix i kvs os k
    assume i: "i < length items"
      and h: "items ! i = PyDict kvs \<and> map_of kvs ''options'' = Some (PyList os) \<and> os \<noteq> []
               \<and> map_of kvs ''correct_answer'' = Some (PyInt k)"
    from list_all2_nthD [OF a i] obtain c
      where c: "correct_answer (items ! i) = Inr c"
        and s: "dict_get (stored ! i) ''correct_answer'' PyNone = Inr c"
      by blast
    from h have "correct_answer (items ! i) = seq_index os k"
      by (simp add: correct_answer_indexed)
    with c have "seq_index os k = Inr c" by simp
    from seq_index_in_range [OF this] s
    show "- int (length os) \<le> k \<and> k < int (length os)
            \<and> dict_get (stored ! i) ''correct_answer'' PyNone
                = Inr (os ! nat (if k < 0 then int (length os) + k else k))"
      by simp
  qed
  from d o g m q len idx show ?thesis by blast
qed

text \<open>
  Claim C9. When \<^verbatim>\<open>POST /documents/{id}/process\<close> succeeds a second time, the stored
  summary, flashcards and quiz become exactly the outputs derived by the second run, the
  rest of the record and of the store being kept. Those outputs are the same whatever
  summary, flashcards, quiz and flag were stored before and whatever else the store holds:
  nothing of the first run's outputs enters them.
\<close>

theorem reprocessing_overwrites_outputs:
  assumes "process_document env document_id w = (Inr r1, w1)"
      and "process_document env document_id w1 = (Inr r2, w2)"
  shows "\<exists>d outs wa.
           documents_storage w1 document_id = Some d
         \<and> derive_outputs env document_id d w1 = (Inr outs, wa)
         \<and> documents_storage w2 = (documents_storage w1)(document_id \<mapsto>
               d\<lparr>summary := Some (fst outs), flashcards := Some (fst (snd outs)),
                 quiz := Some (snd (snd outs)), processed := True\<rparr>)
         \<and> (\<forall>p f q b s.
               fst (derive_outputs env document_id
                      (d\<lparr>summary := p, flashcards := f, quiz := q, processed := b\<rparr>)
                      (w1\<lparr>documents_storage := s\<rparr>)) = Inr outs)"
proof -
  from process_document_success [OF assms(2)] obtain d outs wa
    where d: "documents_storage w1 document_id = Some d"
      and o: "derive_outputs env document_id d w1 = (Inr outs, wa)"
      and w2: "w2 = wa\<lparr>documents_storage := (documents_storage w1)(document_id \<mapsto>
                     d\<lparr>summary := Some (fst outs), flashcards := Some (fst (snd outs)),
                       quiz := Some (snd (snd outs)), processed := True\<rparr>)\<rparr>"
    by blast
  have s: "documents_storage w2 = (documents_storage w1)(document_id \<mapsto>
               d\<lparr>summary := Some (fst outs), flashcards := Some (fst (snd outs)),
                 quiz := Some (snd (snd outs)), processed := True\<rparr>)"
    by (simp add: w2)
  have "fst (derive_outputs env document_id
               (d\<lparr>summary := p, flashcards := f, quiz := q, processed := b\<rparr>)
               (w1\<lparr>documents_storage := s\<rparr>)) = Inr outs" for p f q b s
  proof -
    have "derive_outputs env document_id (d\<lparr>summary := p, flashcards := f, quiz := q, processed := b\<rparr>)
            = derive_outputs env document_id d"
      by (simp add: derive_outputs_def)
    then show ?thesis
      using store_blindD [OF store_blind_derive_outputs, where w = w1 and s = s, of env document_id d] o by simp
  qed
  with d o s show ?thesis by blast
qed




subsection \<open>Runs of the example\<close>

lemma example_parse_quiz:
  \<open>parse_json_response example_env (PyStr ''{"questions": [{"question": "Q", "options": ["A", "B"], "correct_answer": 1, "explanation": "E"}]}'')
     = Inr (PyDict [(''questions'', PyList [PyDict [(''question'', PyStr ''Q''),
            (''options'', PyList [PyStr ''A'', PyStr ''B'']), (''correct_answer'', PyInt 1),
            (''explanation'', PyStr ''E'')]])])\<close>
  by (simp add: parse_json_text_def Let_def str_slice_def clamp_index_def
      example_env_sel example_loads_def example_json_def)

lemma example_parse_flashcards:
  \<open>parse_json_response example_env (PyStr ''Here you go: {"flashcards": [{"front": "F", "back": "G"}]} Enjoy!'')
     = Inr (PyDict [(''flashcards'', PyList [PyDict [(''front'', PyStr ''F''), (''back'', PyStr ''G'')]])])\<close>
  by (simp add: parse_json_text_def Let_def str_slice_def clamp_index_def
      example_env_sel example_loads_def example_json_def)

lemma example_parse_summary2:
  \<open>parse_json_response example_env (PyStr ''{"summary": "S2", "key_points": []}'')
     = Inr (PyDict [(''summary'', PyStr ''S2''), (''key_points'', PyList [])])\<close>
  by (simp add: parse_json_text_def Let_def str_slice_def clamp_index_def
      example_env_sel example_loads_def example_json_def)

lemma example_parse_quiz2:
  \<open>parse_json_response example_env (PyStr ''{"questions": []}'') = Inr (PyDict [(''questions'', PyList [])])\<close>
  by (simp add: parse_json_text_def Let_def str_slice_def clamp_index_def
      example_env_sel example_loads_def example_json_def)

lemma example_parse_flashcards2:
  \<open>parse_json_response example_env (PyStr ''{"flashcards": []}'') = Inr (PyDict [(''flashcards'', PyList [])])\<close>
  by (simp add: parse_json_text_def Let_def str_slice_def clamp_index_def
      example_env_sel example_loads_def example_json_def)

lemma example_parse_bad_quiz:
  \<open>parse_json_response example_env (PyStr ''{"questions": [{"options": ["A", "B"], "correct_answer": 2}]}'')
     = Inr (PyDict [(''questions'', PyList [PyDict [(''options'', PyList [PyStr ''A'', PyStr ''B'']),
            (''correct_answer'', PyInt 2)]])])\<close>
  by (simp add: parse_json_text_def Let_def str_slice_def clamp_index_def
      example_env_sel example_loads_def example_json_def)

lemmas example_parses = example_parse_summary example_parse_quiz example_parse_flashcards
  example_parse_summary2 example_parse_quiz2 example_parse_flashcards2 example_parse_bad_quiz

lemma example_calls:
  "requests_sent w = 0 \<Longrightarrow> call_openrouter_api example_env prompt max_tokens w
     = (Inr (PyStr (example_contents ! 0)), w\<lparr>requests_sent := 1\<rparr>)"
  "requests_sent w = 1 \<Longrightarrow> call_openrouter_api example_env prompt max_tokens w
     = (Inr (PyStr (example_contents ! 1)), w\<lparr>requests_sent := 2\<rparr>)"
  "requests_sent w = 2 \<Longrightarrow> call_openrouter_api example_env prompt max_tokens w
     = (Inr (PyStr (example_contents ! 2)), w\<lparr>requests_sent := 3\<rparr>)"
  "requests_sent w = 3 \<Longrightarrow> call_openrouter_api example_env prompt max_tokens w
     = (Inr (PyStr (example_contents ! 3)), w\<lparr>requests_sent := 4\<rparr>)"
  "requests_sent w = 4 \<Longrightarrow> call_openrouter_api example_env prompt max_tokens w
     = (Inr (PyStr (example_contents ! 4)), w\<lparr>requests_sent := 5\<rparr>)"
  "requests_sent w = 5 \<Longrightarrow> call_openrouter_api example_env prompt max_tokens w
     = (Inr (PyStr (example_contents ! 5)), w\<lparr>requests_sent := 6\<rparr>)"
  using example_call [of w prompt max_tokens]
  by (simp_all add: example_contents_def)

lemma example_derive_first:
  assumes "requests_sent w = 0" "pdf_text d \<noteq> []"
  shows "derive_outputs example_env document_id d w =
     (Inr (PyDict [(''id'', PyStr (''sum-'' @ document_id)),
                   (''document_id'', PyStr document_id),
                   (''content'', PyStr ''S''),
                   (''created_at'', PyStr (isoformat (example_clock (clock_reads w))))],
           PyList [PyDict [(''id'', PyStr (''fc-'' @ document_id @ ''-1'')),
                           (''document_id'', PyStr document_id),
                           (''question'', PyStr ''F''),
                           (''answer'', PyStr ''G''),
                           (''created_at'', PyStr (isoformat (example_clock (clock_reads w + 1))))]],
           PyDict [(''id'', PyStr (''quiz-'' @ document_id)),
                   (''document_id'', PyStr document_id),
                   (''title'', PyStr (''Quiz: '' @ title d)),
                   (''created_at'', PyStr (isoformat (example_clock (clock_reads w + 3)))),
                   (''questions'', PyList [PyDict
                      [(''id'', PyStr (''q-'' @ document_id @ ''-1'')),
                       (''quiz_id'', PyStr (''quiz-'' @ document_id)),
                       (''question'', PyStr ''Q''),
                       (''options'', PyList [PyStr ''A'', PyStr ''B'']),
                       (''correct_answer'', PyStr ''B''),
                       (''created_at'', PyStr (isoformat (example_clock (clock_reads w + 2))))]])]),
      w\<lparr>requests_sent := 3, clock_reads := clock_reads w + 4\<rparr>)"
  using assms
  by (simp add: derive_outputs_def run_simps example_calls example_contents_def example_parses
      example_env_sel correct_answer_def seq_index_def str_int_def digit_char_def
      numeral_3_eq_3 del: parse_json_response.simps)

lemma example_derive_second:
  assumes "requests_sent w = 3" "pdf_text d \<noteq> []"
  shows "derive_outputs example_env document_id d w =
     (Inr (PyDict [(''id'', PyStr (''sum-'' @ document_id)),
                   (''document_id'', PyStr document_id),
                   (''content'', PyStr ''S2''),
                   (''created_at'', PyStr (isoformat (example_clock (clock_reads w))))],
           PyList [],
           PyDict [(''id'', PyStr (''quiz-'' @ document_id)),
                   (''document_id'', PyStr document_id),
                   (''title'', PyStr (''Quiz: '' @ title d)),
                   (''created_at'', PyStr (isoformat (example_clock (clock_reads w + 1)))),
                   (''questions'', PyList [])]),
      w\<lparr>requests_sent := 6, clock_reads := clock_reads w + 2\<rparr>)"
  using assms
  by (simp add: derive_outputs_def run_simps example_calls example_contents_def example_parses
      example_env_sel del: parse_json_response.simps)



lemma uploaded_world_facts:
  "documents_storage uploaded_world ''1700000000'' = Some example_document"
  "requests_sent uploaded_world = 0"
  "clock_reads uploaded_world = 3"
  "pdf_text example_document \<noteq> []"
  by (simp_all add: uploaded_world_def example_document_def)

lemma example_iso:
  "isoformat (example_clock 3) = ''2023-11-14T22:13:20.003001''"
  "isoformat (example_clock 4) = ''2023-11-14T22:13:20.004001''"
  "isoformat (example_clock 5) = ''2023-11-14T22:13:20.005001''"
  "isoformat (example_clock 6) = ''2023-11-14T22:13:20.006001''"
  "isoformat (example_clock 7) = ''2023-11-14T22:13:20.007001''"
  "isoformat (example_clock 8) = ''2023-11-14T22:13:20.008001''"
  by (simp_all add: example_clock_def pad6_def digit_char_def)

lemmas first_run =
  process_document_run [OF uploaded_world_facts(1)
    example_derive_first [OF uploaded_world_facts(2) uploaded_world_facts(4), of "''1700000000''"]]

theorem processed_outputs_are_returned_witness:
  "fst (process_document example_env ''1700000000'' uploaded_world)
     = Inr (PyDict [(''status'', PyStr ''success''),
                    (''message'', PyStr ''Document processed successfully with AI-generated content''),
                    (''document_id'', PyStr ''1700000000'')])
   \<and> fst (get_document example_env ''1700000000''
            (snd (process_document example_env ''1700000000'' uploaded_world)))
     = Inr (PyDict [(''id'', PyStr ''1700000000''),
                    (''title'', PyStr ''Notes''),
                    (''created_at'', PyStr ''2023-11-14T22:13:20.001001''),
                    (''user_id'', PyStr ''default-user-id''),
                    (''file_path'', PyStr ''/uploads/1700000000.pdf''),
                    (''summary'', PyDict [(''id'', PyStr ''sum-1700000000''),
                       (''document_id'', PyStr ''1700000000''),
                       (''content'', PyStr ''S''),
                       (''created_at'', PyStr ''2023-11-14T22:13:20.003001'')]),
                    (''flashcards'', PyList [PyDict [(''id'', PyStr ''fc-1700000000-1''),
                       (''document_id'', PyStr ''1700000000''),
                       (''question'', PyStr ''F''),
                       (''answer'', PyStr ''G''),
                       (''created_at'', PyStr ''2023-11-14T22:13:20.004001'')]]),
                    (''quiz'', PyDict [(''id'', PyStr ''quiz-1700000000''),
                       (''document_id'', PyStr ''1700000000''),
                       (''title'', PyStr ''Quiz: Notes''),
                       (''created_at'', PyStr ''2023-11-14T22:13:20.006001''),
                       (''questions'', PyList [PyDict
                          [(''id'', PyStr ''q-1700000000-1''),
                           (''quiz_id'', PyStr ''quiz-1700000000''),
                           (''question'', PyStr ''Q''),
                           (''options'', PyList [PyStr ''A'', PyStr ''B'']),
                           (''correct_answer'', PyStr ''B''),
                           (''created_at'', PyStr ''2023-11-14T22:13:20.005001'')]])])])"
proof -
  let ?w' = "snd (process_document example_env ''1700000000'' uploaded_world)"
  have p: "process_document example_env ''1700000000'' uploaded_world
             = (Inr (PyDict [(''status'', PyStr ''success''),
                    (''message'', PyStr ''Document processed successfully with AI-generated content''),
                    (''document_id'', PyStr ''1700000000'')]), ?w')"
    by (simp add: first_run)
  from processed_outputs_are_returned [OF p] obtain d outs w1
    where d: "documents_storage uploaded_world ''1700000000'' = Some d"
      and o: "derive_outputs example_env ''1700000000'' d uploaded_world = (Inr outs, w1)"
      and g: "get_document example_env ''1700000000'' ?w'
             = (Inr (PyDict [(''id'', PyStr (doc_id d)),
                             (''title'', PyStr (title d)),
                             (''created_at'', PyStr (created_at d)),
                             (''user_id'', PyStr (user_id d)),
                             (''file_path'', PyStr (file_path d)),
                             (''summary'', fst outs),
                             (''flashcards'', fst (snd outs)),
                             (''quiz'', snd (snd outs))]), ?w')"
    by blast
  from d have d': "d = example_document"
    by (simp add: uploaded_world_facts)
  have pf: "fst (process_document example_env ''1700000000'' uploaded_world)
     = Inr (PyDict [(''status'', PyStr ''success''),
                    (''message'', PyStr ''Document processed successfully with AI-generated content''),
                    (''document_id'', PyStr ''1700000000'')])"
    by (simp add: first_run)
  from o have "outs = projr (fst (derive_outputs example_env ''1700000000'' example_document uploaded_world))"
    by (simp add: d')
  with g have "fst (get_document example_env ''1700000000'' ?w')
      = Inr (PyDict [(''id'', PyStr (doc_id example_document)),
                     (''title'', PyStr (title example_document)),
                     (''created_at'', PyStr (created_at example_document)),
                     (''user_id'', PyStr (user_id example_document)),
                     (''file_path'', PyStr (file_path example_document)),
                     (''summary'', fst (projr (fst (derive_outputs example_env ''1700000000'' example_document uploaded_world)))),
                     (''flashcards'', fst (snd (projr (fst (derive_outputs example_env ''1700000000'' example_document uploaded_world))))),
                     (''quiz'', snd (snd (projr (fst (derive_outputs example_env ''1700000000'' example_document uploaded_world)))))])"
    by (simp add: d')
  then have "fst (get_document example_env ''1700000000'' ?w') = Inr (PyDict [(''id'', PyStr ''1700000000''),
                    (''title'', PyStr ''Notes''),
                    (''created_at'', PyStr ''2023-11-14T22:13:20.001001''),
                    (''user_id'', PyStr ''default-user-id''),
                    (''file_path'', PyStr ''/uploads/1700000000.pdf''),
                    (''summary'', PyDict [(''id'', PyStr ''sum-1700000000''),
                       (''document_id'', PyStr ''1700000000''),
                       (''content'', PyStr ''S''),
                       (''created_at'', PyStr ''2023-11-14T22:13:20.003001'')]),
                    (''flashcards'', PyList [PyDict [(''id'', PyStr ''fc-1700000000-1''),
                       (''document_id'', PyStr ''1700000000''),
                       (''question'', PyStr ''F''),
                       (''answer'', PyStr ''G''),
                       (''created_at'', PyStr ''2023-11-14T22:13:20.004001'')]]),
                    (''quiz'', PyDict [(''id'', PyStr ''quiz-1700000000''),
                       (''document_id'', PyStr ''1700000000''),
                       (''title'', PyStr ''Quiz: Notes''),
                       (''created_at'', PyStr ''2023-11-14T22:13:20.006001''),
                       (''questions'', PyList [PyDict
                          [(''id'', PyStr ''q-1700000000-1''),
                           (''quiz_id'', PyStr ''quiz-1700000000''),
                           (''question'', PyStr ''Q''),
                           (''options'', PyList [PyStr ''A'', PyStr ''B'']),
                           (''correct_answer'', PyStr ''B''),
                           (''created_at'', PyStr ''2023-11-14T22:13:20.005001'')]])])])"
    by (simp add: example_derive_first uploaded_world_facts example_iso example_document_def)
  with pf show ?thesis by (rule conjI)
qed



theorem reprocessing_overwrites_outputs_witness:
  "fst (process_document example_env ''1700000000'' uploaded_world)
     = Inr (PyDict [(''status'', PyStr ''success''),
                    (''message'', PyStr ''Document processed successfully with AI-generated content''),
                    (''document_id'', PyStr ''1700000000'')])
   \<and> fst (process_document example_env ''1700000000''
            (snd (process_document example_env ''1700000000'' uploaded_world)))
     = Inr (PyDict [(''status'', PyStr ''success''),
                    (''message'', PyStr ''Document processed successfully with AI-generated content''),
                    (''document_id'', PyStr ''1700000000'')])
   \<and> map_option flashcards (documents_storage
          (snd (process_document example_env ''1700000000'' uploaded_world)) ''1700000000'')
     = Some (Some (PyList [PyDict [(''id'', PyStr ''fc-1700000000-1''),
                       (''document_id'', PyStr ''1700000000''),
                       (''question'', PyStr ''F''),
                       (''answer'', PyStr ''G''),
                       (''created_at'', PyStr ''2023-11-14T22:13:20.004001'')]]))
   \<and> map_option flashcards (documents_storage
          (snd (process_document example_env ''1700000000''
             (snd (process_document example_env ''1700000000'' uploaded_world)))) ''1700000000'')
     = Some (Some (PyList []))
   \<and> map_option summary (documents_storage
          (snd (process_document example_env ''1700000000''
             (snd (process_document example_env ''1700000000'' uploaded_world)))) ''1700000000'')
     = Some (Some (PyDict [(''id'', PyStr ''sum-1700000000''),
                       (''document_id'', PyStr ''1700000000''),
                       (''content'', PyStr ''S2''),
                       (''created_at'', PyStr ''2023-11-14T22:13:20.007001'')]))"
proof -
  let ?ok = "PyDict [(''status'', PyStr ''success''),
                    (''message'', PyStr ''Document processed successfully with AI-generated content''),
                    (''document_id'', PyStr ''1700000000'')]"
  let ?w1 = "snd (process_document example_env ''1700000000'' uploaded_world)"
  let ?w2 = "snd (process_document example_env ''1700000000'' ?w1)"
  define D1 where "D1 = the (documents_storage ?w1 ''1700000000'')"
  have s1: "documents_storage ?w1 ''1700000000'' = Some D1"
    by (simp add: D1_def first_run)
  have r1: "requests_sent ?w1 = 3" "clock_reads ?w1 = 7"
    by (simp_all add: first_run uploaded_world_facts)
  have t1: "pdf_text D1 \<noteq> []" "title D1 = ''Notes''"
    by (simp_all add: D1_def first_run example_document_def)
  have f1: "flashcards D1 = Some (PyList [PyDict [(''id'', PyStr ''fc-1700000000-1''),
                       (''document_id'', PyStr ''1700000000''),
                       (''question'', PyStr ''F''),
                       (''answer'', PyStr ''G''),
                       (''created_at'', PyStr ''2023-11-14T22:13:20.004001'')]])"
    by (simp add: D1_def first_run uploaded_world_facts example_iso)
  have p1: "process_document example_env ''1700000000'' uploaded_world = (Inr ?ok, ?w1)"
    by (simp add: first_run)
  have p2: "process_document example_env ''1700000000'' ?w1 = (Inr ?ok, ?w2)"
    using process_document_run [OF s1 example_derive_second [OF r1(1) t1(1), of "''1700000000''"]]
    by simp
  from reprocessing_overwrites_outputs [OF p1 p2] obtain d outs wa
    where d: "documents_storage ?w1 ''1700000000'' = Some d"
      and o: "derive_outputs example_env ''1700000000'' d ?w1 = (Inr outs, wa)"
      and s2: "documents_storage ?w2 = (documents_storage ?w1)(''1700000000'' \<mapsto>
               d\<lparr>summary := Some (fst outs), flashcards := Some (fst (snd outs)),
                 quiz := Some (snd (snd outs)), processed := True\<rparr>)"
    by blast
  from d s1 have d': "d = D1" by simp
  from o have outs: "outs = projr (fst (derive_outputs example_env ''1700000000'' D1 ?w1))"
    by (simp add: d')
  have e: "projr (fst (derive_outputs example_env ''1700000000'' D1 ?w1))
     = (PyDict [(''id'', PyStr ''sum-1700000000''),
                   (''document_id'', PyStr ''1700000000''),
                   (''content'', PyStr ''S2''),
                   (''created_at'', PyStr ''2023-11-14T22:13:20.007001'')],
           PyList [],
           PyDict [(''id'', PyStr ''quiz-1700000000''),
                   (''document_id'', PyStr ''1700000000''),
                   (''title'', PyStr ''Quiz: Notes''),
                   (''created_at'', PyStr ''2023-11-14T22:13:20.008001''),
                   (''questions'', PyList [])])"
    by (simp add: example_derive_second [OF r1(1) t1(1)] r1 t1 example_iso)
  have a: "map_option flashcards (documents_storage ?w1 ''1700000000'') = Some (flashcards D1)"
    by (simp add: s1)
  have b: "map_option flashcards (documents_storage ?w2 ''1700000000'') = Some (Some (PyList []))"
    by (simp add: s2 outs e)
  have c: "map_option summary (documents_storage ?w2 ''1700000000'')
     = Some (Some (PyDict [(''id'', PyStr ''sum-1700000000''),
                       (''document_id'', PyStr ''1700000000''),
                       (''content'', PyStr ''S2''),
                       (''created_at'', PyStr ''2023-11-14T22:13:20.007001'')]))"
    by (simp add: s2 outs e)
  from p1 have q1: "fst (process_document example_env ''1700000000'' uploaded_world) = Inr ?ok"
    by (metis fst_conv)
  from p2 have q2: "fst (process_document example_env ''1700000000'' ?w1) = Inr ?ok"
    by (metis fst_conv)
  from q1 q2 a b c f1 show ?thesis by simp
qed














end
